theory Spec2Isabelle
  imports Complex_Main "HOL-Library.AList" "HOL-Library.Word"
begin

section \<open>Capstone: the campus energy-use dashboard\<close>

subsection \<open>What is taken from pandas and numpy\<close>

text \<open>
  The program is modelled; the library it calls is a parameter wherever its result is
  not fixed by the program's text.
  \<^item> \<open>to_datetime\<close> is \<^verbatim>\<open>pd.to_datetime\<close> on a column of texts, with the default
    \<^verbatim>\<open>errors='raise'\<close>: \<open>None\<close> when it raises, else the reading of the cells that it
    settled on for this column (it may infer one format for the whole column, so the
    outcome for a cell depends on the column it stands in). Instants are seconds, without
    time zone.
  \<^item> \<open>to_float64\<close> is the conversion of an int64 to float64, \<open>float_sum\<close> and
    \<open>float_mean\<close> are the reductions \<^verbatim>\<open>sum\<close> and \<^verbatim>\<open>mean\<close> of a float64 column without
    its NaN cells, and \<open>float_group_sum\<close> is the sum of one bin of
    \<^verbatim>\<open>resample('D').sum()\<close> on a float64 column: they round, and how is left open.
  A finite float64 is the rational it denotes; infinite values are not part of the model.
  Sums of int64 wrap around silently and are modelled as such.
\<close>

record pandas =
  to_datetime :: "string list \<Rightarrow> (string \<Rightarrow> int) option"
  to_float64 :: "64 word \<Rightarrow> rat"
  float_sum :: "rat list \<Rightarrow> rat"
  float_mean :: "rat list \<Rightarrow> rat"
  float_group_sum :: "rat list \<Rightarrow> rat"

subsection \<open>Data as \<^verbatim>\<open>pd.read_csv\<close> delivers it\<close>

text \<open>
  A quantity cell as \<^verbatim>\<open>read_csv\<close> delivers it: an int64 (in a column of integers only), a
  float64 or NaN (in a column of numbers and empty cells), or the text of the cell (in a
  column that holds text that is no number, where every cell that is not empty is text).
  A timestamp cell is text: a timestamp column of numbers, and an empty timestamp cell
  (which pandas reads as NaT), are not part of the model. Columns other than
  \<^verbatim>\<open>timestamp\<close> and \<^verbatim>\<open>kwh\<close> are carried along by pandas and never read by the
  program.
\<close>

datatype kwh_cell = IntCell "64 word" | FloatCell rat | NaN | StrCell string

record csv_row =
  row_timestamp :: string
  row_kwh :: kwh_cell

text \<open>\<^verbatim>\<open>pd.read_csv\<close> either raises or gives a frame with column names and rows.\<close>

datatype read_result = ReadError | Frame "string list" "csv_row list"

record csv_file =
  stem :: string
  content :: read_result

subsection \<open>Logging\<close>

datatype level = INFO | WARNING | ERROR

text \<open>One constructor for each logging call of the program, with the value it formats.\<close>

datatype message =
    NoCsvFilesFound string
  | Loading string
  | SkippingMissingColumns string
  | ErrorReading string
  | CombinedDataLoaded nat
  | BuildingSummarySaved string
  | SummaryReportSaved string
  | CleanedDataExported string
  | NoDataToVisualize
  | DashboardSaved string

type_synonym log_entry = "level \<times> message"

subsection \<open>MeterReading and Building\<close>

record MeterReading =
  timestamp :: string
  kwh :: kwh_cell

text \<open>
  The frame of a building: the empty \<^verbatim>\<open>pd.DataFrame()\<close> of the constructor, the frame
  assigned in \<^verbatim>\<open>process_readings\<close> before \<^verbatim>\<open>pd.to_datetime\<close> raised on it, or the
  frame indexed by parsed timestamp and sorted.
\<close>

datatype data_frame =
    EmptyFrame
  | RawFrame "MeterReading list"
  | TimeIndexed "(int \<times> kwh_cell) list"

record Building =
  name :: string
  readings :: "MeterReading list"
  df :: data_frame

definition new_Building :: "string \<Rightarrow> Building" where
  "new_Building n = \<lparr>name = n, readings = [], df = EmptyFrame\<rparr>"

definition add_reading :: "Building \<Rightarrow> MeterReading \<Rightarrow> Building" where
  "add_reading b r = b\<lparr>readings := readings b @ [r]\<rparr>"

datatype error = DateParseError | NonNumericQuantity | NoDatetimeIndex | AllNaN

text \<open>
  \<^verbatim>\<open>process_readings\<close> mutates the building; the first component tells whether it raised.
  The frame is assigned before the timestamps are parsed, so an exception leaves the raw
  frame behind. The sort keeps rows with equal timestamps in their order, which pandas
  does not promise.
\<close>

definition process_readings :: "pandas \<Rightarrow> Building \<Rightarrow> error option \<times> Building" where
  "process_readings p b =
     (if readings b = [] then (None, b)
      else (case to_datetime p (map timestamp (readings b)) of
              None \<Rightarrow> (Some DateParseError, b\<lparr>df := RawFrame (readings b)\<rparr>)
            | Some instant_of \<Rightarrow>
                (None, b\<lparr>df := TimeIndexed
                    (sort_key fst (map (\<lambda>r. (instant_of (timestamp r), kwh r)) (readings b)))\<rparr>)))"

definition df_empty :: "data_frame \<Rightarrow> bool" where
  "df_empty d = (case d of EmptyFrame \<Rightarrow> True | RawFrame rs \<Rightarrow> rs = [] | TimeIndexed rs \<Rightarrow> rs = [])"

definition df_kwh :: "data_frame \<Rightarrow> kwh_cell list" where
  "df_kwh d = (case d of EmptyFrame \<Rightarrow> [] | RawFrame rs \<Rightarrow> map kwh rs | TimeIndexed rs \<Rightarrow> map snd rs)"

subsection \<open>BuildingManager.load\_data\<close>

text \<open>A row of a file with the \<^verbatim>\<open>building\<close> column that \<^verbatim>\<open>load_data\<close> adds.\<close>

record tagged_row =
  t_timestamp :: string
  t_kwh :: kwh_cell
  t_building :: string

text \<open>
  The timestamp column of the combined table holds the texts of the files until the
  last statement of \<^verbatim>\<open>load_data\<close> replaces it by the parsed instants.
\<close>

datatype stamp = Unparsed string | At int

record combined_row =
  c_timestamp :: stamp
  c_kwh :: kwh_cell
  c_building :: string

text \<open>
  \<^verbatim>\<open>buildings\<close> is a Python dict: an association list in insertion order, where assigning
  to a present key keeps its place.
\<close>

record BuildingManager =
  data_dir :: string
  buildings :: "(string \<times> Building) list"
  combined_df :: "combined_row list"

definition new_BuildingManager :: "string \<Rightarrow> BuildingManager" where
  "new_BuildingManager d = \<lparr>data_dir = d, buildings = [], combined_df = []\<rparr>"

record loader =
  l_buildings :: "(string \<times> Building) list"
  all_data :: "tagged_row list list"
  l_log :: "log_entry list"

definition file_path :: "string \<Rightarrow> csv_file \<Rightarrow> string" where
  "file_path d f = d @ ''/'' @ stem f @ ''.csv''"

definition to_reading :: "csv_row \<Rightarrow> MeterReading" where
  "to_reading r = \<lparr>timestamp = row_timestamp r, kwh = row_kwh r\<rparr>"

definition tag_row :: "string \<Rightarrow> csv_row \<Rightarrow> tagged_row" where
  "tag_row n r = \<lparr>t_timestamp = row_timestamp r, t_kwh = row_kwh r, t_building = n\<rparr>"

definition emit :: "level \<Rightarrow> message \<Rightarrow> log_entry list \<Rightarrow> log_entry list" where
  "emit lv m lg = lg @ [(lv, m)]"

text \<open>The body of the loop over the files, with its \<^verbatim>\<open>try\<close>/\<^verbatim>\<open>except\<close>.\<close>

definition load_file :: "pandas \<Rightarrow> string \<Rightarrow> loader \<Rightarrow> csv_file \<Rightarrow> loader" where
  "load_file p d s f =
     (let building_name = stem f;
          lg = emit INFO (Loading building_name) (l_log s)
      in case content f of
           ReadError \<Rightarrow> s\<lparr>l_log := emit ERROR (ErrorReading (file_path d f)) lg\<rparr>
         | Frame cols rows \<Rightarrow>
             (if ''timestamp'' \<notin> set cols \<or> ''kwh'' \<notin> set cols
              then s\<lparr>l_log := emit ERROR (SkippingMissingColumns (file_path d f)) lg\<rparr>
              else
               let b0 = (case map_of (l_buildings s) building_name of
                           None \<Rightarrow> new_Building building_name
                         | Some b \<Rightarrow> b);
                   b1 = foldl add_reading b0 (map to_reading rows);
                   (raised, b2) = process_readings p b1;
                   bs = AList.update building_name b2 (l_buildings s)
               in (case raised of
                     Some e \<Rightarrow> s\<lparr>l_buildings := bs,
                                  l_log := emit ERROR (ErrorReading (file_path d f)) lg\<rparr>
                   | None \<Rightarrow> s\<lparr>l_buildings := bs,
                                all_data := all_data s @ [map (tag_row building_name) rows],
                                l_log := lg\<rparr>)))"

definition unparsed_row :: "tagged_row \<Rightarrow> combined_row" where
  "unparsed_row r = \<lparr>c_timestamp = Unparsed (t_timestamp r), c_kwh = t_kwh r, c_building = t_building r\<rparr>"

definition parsed_row :: "(string \<Rightarrow> int) \<Rightarrow> tagged_row \<Rightarrow> combined_row" where
  "parsed_row instant_of r =
     \<lparr>c_timestamp = At (instant_of (t_timestamp r)), c_kwh = t_kwh r, c_building = t_building r\<rparr>"

text \<open>
  \<^verbatim>\<open>load_data\<close>: the files come in the order \<^verbatim>\<open>glob\<close> lists them. The concatenated
  frame is assigned first; the \<^verbatim>\<open>pd.to_datetime\<close> on its timestamp column is outside the
  \<^verbatim>\<open>try\<close>, so its exception leaves \<^verbatim>\<open>load_data\<close>, with the texts still in the column.
\<close>

definition load_data :: "pandas \<Rightarrow> csv_file list \<Rightarrow> BuildingManager \<Rightarrow> log_entry list
    \<Rightarrow> error option \<times> BuildingManager \<times> log_entry list" where
  "load_data p csv_files m lg =
     (if csv_files = [] then (None, m, emit WARNING (NoCsvFilesFound (data_dir m)) lg)
      else
        let s = foldl (load_file p (data_dir m))
                  \<lparr>l_buildings = buildings m, all_data = [], l_log = lg\<rparr> csv_files;
            m1 = m\<lparr>buildings := l_buildings s\<rparr>
        in if all_data s = [] then (None, m1, l_log s)
           else (case to_datetime p (map t_timestamp (concat (all_data s))) of
                   None \<Rightarrow>
                     (Some DateParseError,
                      m1\<lparr>combined_df := map unparsed_row (concat (all_data s))\<rparr>, l_log s)
                 | Some instant_of \<Rightarrow>
                     (None, m1\<lparr>combined_df := map (parsed_row instant_of) (concat (all_data s))\<rparr>,
                      emit INFO (CombinedDataLoaded (length (concat (all_data s)))) (l_log s))))"

subsection \<open>Reductions over the quantity column\<close>

text \<open>
  The dtype of a column, read off its cells: \<^verbatim>\<open>object\<close> when a cell is text, \<^verbatim>\<open>int64\<close>
  when all are integers, \<^verbatim>\<open>float64\<close> otherwise (an integer in such a column is a float,
  as after concatenating an integer frame and a float frame).
\<close>

datatype dtype = Int64 | Float64 | Object

fun is_str :: "kwh_cell \<Rightarrow> bool" where
  "is_str (StrCell s) = True"
| "is_str (IntCell w) = False"
| "is_str (FloatCell q) = False"
| "is_str NaN = False"

fun is_int :: "kwh_cell \<Rightarrow> bool" where
  "is_int (IntCell w) = True"
| "is_int (StrCell s) = False"
| "is_int (FloatCell q) = False"
| "is_int NaN = False"

definition dtype_of :: "kwh_cell list \<Rightarrow> dtype" where
  "dtype_of cs = (if list_ex is_str cs then Object else if list_all is_int cs then Int64 else Float64)"

fun ints :: "kwh_cell list \<Rightarrow> 64 word list" where
  "ints [] = []"
| "ints (IntCell w # cs) = w # ints cs"
| "ints (FloatCell q # cs) = ints cs"
| "ints (NaN # cs) = ints cs"
| "ints (StrCell s # cs) = ints cs"

text \<open>The float64 values of a numeric column, the NaN cells skipped (\<^verbatim>\<open>skipna=True\<close>).\<close>

fun floats :: "pandas \<Rightarrow> kwh_cell list \<Rightarrow> rat list" where
  "floats p [] = []"
| "floats p (IntCell w # cs) = to_float64 p w # floats p cs"
| "floats p (FloatCell q # cs) = q # floats p cs"
| "floats p (NaN # cs) = floats p cs"
| "floats p (StrCell s # cs) = floats p cs"

text \<open>
  A number the program holds: Python's \<^verbatim>\<open>0\<close>, a numpy int64 or a numpy float64. A
  comparison of two integers is exact; with a float64 on a side, both sides are compared
  as float64.
\<close>

datatype number = Zero | I64 "64 word" | F64 rat

fun as_int :: "number \<Rightarrow> int option" where
  "as_int Zero = Some 0"
| "as_int (I64 w) = Some (sint w)"
| "as_int (F64 q) = None"

fun as_float :: "pandas \<Rightarrow> number \<Rightarrow> rat" where
  "as_float p Zero = 0"
| "as_float p (I64 w) = to_float64 p w"
| "as_float p (F64 q) = q"

definition greater :: "pandas \<Rightarrow> number \<Rightarrow> number \<Rightarrow> bool" where
  "greater p a b =
     (case (as_int a, as_int b) of
        (Some i, Some j) \<Rightarrow> i > j
      | _ \<Rightarrow> as_float p a > as_float p b)"

text \<open>
  \<^verbatim>\<open>sum\<close>, \<^verbatim>\<open>mean\<close> and \<^verbatim>\<open>max\<close> of a column. On an \<^verbatim>\<open>object\<close> column the reductions
  raise or give a string, on which the next numeric use (\<^verbatim>\<open>:.2f\<close>, \<^verbatim>\<open>mean\<close>,
  \<^verbatim>\<open>total > 0\<close>) raises; \<open>None\<close> of \<open>col_sum\<close> stands for that. \<open>None\<close> of \<open>col_mean\<close> and
  \<open>col_max\<close> is the NaN of a column without numbers.
\<close>

definition col_sum :: "pandas \<Rightarrow> kwh_cell list \<Rightarrow> number option" where
  "col_sum p cs =
     (case dtype_of cs of
        Object \<Rightarrow> None
      | Int64 \<Rightarrow> Some (I64 (sum_list (ints cs)))
      | Float64 \<Rightarrow> Some (F64 (float_sum p (floats p cs))))"

definition col_mean :: "pandas \<Rightarrow> kwh_cell list \<Rightarrow> number option" where
  "col_mean p cs =
     (if dtype_of cs = Object \<or> floats p cs = [] then None
      else Some (F64 (float_mean p (floats p cs))))"

definition smax :: "64 word \<Rightarrow> 64 word \<Rightarrow> 64 word" where
  "smax a b = (if sint a < sint b then b else a)"

definition col_max :: "pandas \<Rightarrow> kwh_cell list \<Rightarrow> number option" where
  "col_max p cs =
     (case dtype_of cs of
        Object \<Rightarrow> None
      | Int64 \<Rightarrow> (case ints cs of [] \<Rightarrow> None | w # ws \<Rightarrow> Some (I64 (fold smax ws w)))
      | Float64 \<Rightarrow> (case floats p cs of [] \<Rightarrow> None | q # qs \<Rightarrow> Some (F64 (fold max qs q))))"

subsection \<open>Building.calculate\_daily\_totals\<close>







subsection \<open>BuildingManager.generate\_summary\_report\<close>

record building_stat =
  st_building :: string
  st_total :: number
  st_average :: "number option"
  st_max :: "number option"

text \<open>The lines of the text report, with the values they format.\<close>

datatype summary_line =
    Title
  | Rule
  | TotalConsumption number
  | HighestConsumer "string option" number
  | PeakLoad stamp number string

datatype file_content =
    SummaryCsv "building_stat list"
  | SummaryTxt "summary_line list"
  | CleanedCsv "combined_row list"
  | DashboardPng

text \<open>
  What a run leaves outside the manager: the files written (opening with mode \<^verbatim>\<open>w\<close>
  replaces the content), the log and the lines printed.
\<close>

record world =
  w_files :: "(string \<times> file_content) list"
  w_log :: "log_entry list"
  w_stdout :: "summary_line list list"

definition write_file :: "string \<Rightarrow> file_content \<Rightarrow> world \<Rightarrow> world" where
  "write_file file c w = w\<lparr>w_files := AList.update file c (w_files w)\<rparr>"

definition logging :: "level \<Rightarrow> message \<Rightarrow> world \<Rightarrow> world" where
  "logging lv m w = w\<lparr>w_log := emit lv m (w_log w)\<rparr>"

text \<open>
  The loop over \<^verbatim>\<open>self.buildings.items()\<close>, with the statistics collected so far and
  the highest consumer so far, which starts as \<^verbatim>\<open>(None, 0)\<close>.
\<close>

fun building_loop :: "pandas \<Rightarrow> (string \<times> Building) list
    \<Rightarrow> building_stat list \<times> string option \<times> number
    \<Rightarrow> error + building_stat list \<times> string option \<times> number" where
  "building_loop p [] acc = Inr acc"
| "building_loop p ((n, b) # rest) (building_stats, highest_consumer) =
     (if df_empty (df b) then building_loop p rest (building_stats, highest_consumer)
      else (case col_sum p (df_kwh (df b)) of
              None \<Rightarrow> Inl NonNumericQuantity
            | Some total_kwh \<Rightarrow>
                let avg = col_mean p (df_kwh (df b));
                    max_kwh = col_max p (df_kwh (df b))
                in building_loop p rest
                     (building_stats @
                        [\<lparr>st_building = n, st_total = total_kwh, st_average = avg,
                          st_max = max_kwh\<rparr>],
                      if greater p total_kwh (snd highest_consumer) then (Some n, total_kwh)
                      else highest_consumer)))"

text \<open>
  \<^verbatim>\<open>combined_df.loc[combined_df['kwh'].idxmax()]\<close>: the first row holding the largest
  quantity, with the quantity as the column holds it; with no number in the column the
  lookup raises.
\<close>

definition cell_number :: "pandas \<Rightarrow> dtype \<Rightarrow> kwh_cell \<Rightarrow> number option" where
  "cell_number p t c =
     (case c of
        IntCell w \<Rightarrow> Some (if t = Int64 then I64 w else F64 (to_float64 p w))
      | FloatCell q \<Rightarrow> Some (F64 q)
      | NaN \<Rightarrow> None
      | StrCell s \<Rightarrow> None)"

definition peak_row :: "pandas \<Rightarrow> combined_row list \<Rightarrow> error + combined_row \<times> number" where
  "peak_row p rows =
     (case col_max p (map c_kwh rows) of
        None \<Rightarrow> (if dtype_of (map c_kwh rows) = Object then Inl NonNumericQuantity else Inl AllNaN)
      | Some q \<Rightarrow>
          (case find (\<lambda>r. cell_number p (dtype_of (map c_kwh rows)) (c_kwh r) = Some q) rows of
             None \<Rightarrow> Inl AllNaN
           | Some r \<Rightarrow> Inr (r, q)))"

text \<open>
  The grand total, \<open>None\<close> when the column is not numeric. The report is the source's
  \<^verbatim>\<open>generate_summary_report\<close>; creating the output directory and writing the files are
  taken to succeed. Nothing is written before the loop over the buildings has ended.
\<close>

definition campus_total :: "pandas \<Rightarrow> BuildingManager \<Rightarrow> number option" where
  "campus_total p m =
     (if combined_df m \<noteq> [] then col_sum p (map c_kwh (combined_df m)) else Some Zero)"

definition generate_summary_report :: "pandas \<Rightarrow> string \<Rightarrow> BuildingManager \<Rightarrow> world
    \<Rightarrow> error option \<times> world" where
  "generate_summary_report p output_dir m w =
     (case campus_total p m of
        None \<Rightarrow> (Some NonNumericQuantity, w)
      | Some total_consumption \<Rightarrow>
          (case building_loop p (buildings m) ([], None, Zero) of
             Inl e \<Rightarrow> (Some e, w)
           | Inr (building_stats, highest_consumer) \<Rightarrow>
               let summary_csv_path = output_dir @ ''/building_summary.csv'';
                   w1 = logging INFO (BuildingSummarySaved summary_csv_path)
                          (write_file summary_csv_path (SummaryCsv building_stats) w);
                   summary_lines =
                     [Title, Rule, TotalConsumption total_consumption,
                      HighestConsumer (fst highest_consumer) (snd highest_consumer)]
               in (case (if combined_df m \<noteq> []
                         then map_sum id (\<lambda>(r, q). [PeakLoad (c_timestamp r) q (c_building r)])
                                (peak_row p (combined_df m))
                         else Inr []) of
                     Inl e \<Rightarrow> (Some e, w1)
                   | Inr peak \<Rightarrow>
                       let report_path = output_dir @ ''/summary.txt'';
                           w2 = logging INFO (SummaryReportSaved report_path)
                                  (write_file report_path (SummaryTxt (summary_lines @ peak)) w1);
                           cleaned_path = output_dir @ ''/cleaned_energy_data.csv'';
                           w3 = logging INFO (CleanedDataExported cleaned_path)
                                  (write_file cleaned_path (CleanedCsv (combined_df m)) w2)
                       in (None, w3\<lparr>w_stdout := w_stdout w3 @ [summary_lines @ peak]\<rparr>))))"

subsection \<open>BuildingManager.create\_dashboard and main\<close>

text \<open>
  The drawing of the three panels is matplotlib's and pandas's; it is the parameter
  \<open>draw\<close>, which either raises or completes.
\<close>

definition create_dashboard :: "(BuildingManager \<Rightarrow> error option) \<Rightarrow> string \<Rightarrow> BuildingManager
    \<Rightarrow> world \<Rightarrow> error option \<times> world" where
  "create_dashboard draw output_dir m w =
     (if combined_df m = [] then (None, logging WARNING NoDataToVisualize w)
      else (case draw m of
              Some e \<Rightarrow> (Some e, w)
            | None \<Rightarrow>
                let dashboard_path = output_dir @ ''/dashboard.png''
                in (None, logging INFO (DashboardSaved dashboard_path)
                            (write_file dashboard_path DashboardPng w))))"

text \<open>
  \<^verbatim>\<open>main\<close>, for the directory \<open>base_dir\<close> of the script and the CSV files that
  \<^verbatim>\<open>glob\<close> finds in its \<^verbatim>\<open>data\<close> directory, in the order in which it lists them. An
  exception ends the run.
\<close>

definition main :: "pandas \<Rightarrow> (BuildingManager \<Rightarrow> error option) \<Rightarrow> string \<Rightarrow> csv_file list
    \<Rightarrow> world \<Rightarrow> error option \<times> world" where
  "main p draw base_dir csv_files w =
     (let data_directory = base_dir @ ''/data'';
          output_dir = base_dir @ ''/output'';
          manager = new_BuildingManager data_directory;
          (e1, manager1, lg) = load_data p csv_files manager (w_log w);
          w1 = w\<lparr>w_log := lg\<rparr>
      in case e1 of
           Some e \<Rightarrow> (Some e, w1)
         | None \<Rightarrow>
             (case generate_summary_report p output_dir manager1 w1 of
                (Some e, w2) \<Rightarrow> (Some e, w2)
              | (None, w2) \<Rightarrow> create_dashboard draw output_dir manager1 w2))"

section \<open>Lab 3: the library inventory manager\<close>

subsection \<open>Strings\<close>

text \<open>
  \<^verbatim>\<open>str.strip()\<close> and \<^verbatim>\<open>str.lower()\<close> on ASCII text: the whitespace characters are
  the codes 9 to 13, 28 to 31 and 32, and the letters A to Z are lowered.
\<close>

definition is_space :: "char \<Rightarrow> bool" where
  "is_space c = (let n = (of_char c :: nat) in (9 \<le> n \<and> n \<le> 13) \<or> (28 \<le> n \<and> n \<le> 32))"

definition strip :: "string \<Rightarrow> string" where
  "strip s = rev (dropWhile is_space (rev (dropWhile is_space s)))"

definition lower_char :: "char \<Rightarrow> char" where
  "lower_char c = (let n = (of_char c :: nat) in if 65 \<le> n \<and> n \<le> 90 then char_of (n + 32) else c)"

definition lower :: "string \<Rightarrow> string" where
  "lower s = map lower_char s"

subsection \<open>Book\<close>

record Book =
  title :: string
  author :: string
  isbn :: string
  status :: string

text \<open>
  The constructor; the status argument is \<open>None\<close> when it is not given (the default
  \<^verbatim>\<open>"available"\<close> applies) or is JSON \<^verbatim>\<open>null\<close>.
\<close>

definition Book_init :: "string \<Rightarrow> string \<Rightarrow> string \<Rightarrow> string option \<Rightarrow> Book" where
  "Book_init t a i st =
     (let s = (case st of
                 None \<Rightarrow> ''available''
               | Some x \<Rightarrow> if x \<noteq> [] then lower (strip x) else ''available'')
      in \<lparr>title = strip t, author = strip a, isbn = strip i,
          status = (if s \<noteq> ''available'' \<and> s \<noteq> ''issued'' then ''available'' else s)\<rparr>)"

definition issue :: "Book \<Rightarrow> bool \<times> Book" where
  "issue b = (if status b = ''available'' then (True, b\<lparr>status := ''issued''\<rparr>) else (False, b))"

definition return_book :: "Book \<Rightarrow> bool \<times> Book" where
  "return_book b = (if status b = ''issued'' then (True, b\<lparr>status := ''available''\<rparr>) else (False, b))"

subsection \<open>The catalog file and LibraryInventory\<close>

text \<open>
  An element of the JSON list: an object with the string fields of a book (the status
  optional), or anything else, on which \<^verbatim>\<open>Book(**item)\<close> raises.
\<close>

datatype json_item = Entry string string string "string option" | BadEntry

datatype catalog_file = Absent | Unreadable | NotJson | NotAList | Catalog "json_item list"

record disk =
  catalog :: catalog_file
  writable :: bool

datatype lib_message =
    CatalogNotFound
  | CatalogLoaded nat
  | LoadFailed
  | CatalogSaved nat
  | SaveFailed
  | FieldsRequired
  | AlreadyExists string
  | AddedBook string

type_synonym lib_log = "(level \<times> lib_message) list"

record LibraryInventory =
  books :: "Book list"

datatype lib_error = TypeError

definition to_dict :: "Book \<Rightarrow> json_item" where
  "to_dict b = Entry (title b) (author b) (isbn b) (Some (status b))"

fun from_items :: "json_item list \<Rightarrow> Book list option" where
  "from_items [] = Some []"
| "from_items (Entry t a i st # items) = map_option ((#) (Book_init t a i st)) (from_items items)"
| "from_items (BadEntry # items) = None"

text \<open>
  \<^verbatim>\<open>load_books\<close> catches \<^verbatim>\<open>JSONDecodeError\<close> and \<^verbatim>\<open>OSError\<close> only: the
  \<^verbatim>\<open>TypeError\<close> of an ill-formed entry leaves it.
\<close>

definition load_books :: "disk \<Rightarrow> lib_log \<Rightarrow> lib_error + LibraryInventory \<times> lib_log" where
  "load_books d lg =
     (case catalog d of
        Absent \<Rightarrow> Inr (\<lparr>books = []\<rparr>, lg @ [(INFO, CatalogNotFound)])
      | Unreadable \<Rightarrow> Inr (\<lparr>books = []\<rparr>, lg @ [(ERROR, LoadFailed)])
      | NotJson \<Rightarrow> Inr (\<lparr>books = []\<rparr>, lg @ [(ERROR, LoadFailed)])
      | NotAList \<Rightarrow> Inr (\<lparr>books = []\<rparr>, lg @ [(ERROR, LoadFailed)])
      | Catalog items \<Rightarrow>
          (case from_items items of
             None \<Rightarrow> Inl TypeError
           | Some bs \<Rightarrow> Inr (\<lparr>books = bs\<rparr>, lg @ [(INFO, CatalogLoaded (length bs))])))"

text \<open>
  \<^verbatim>\<open>save_books\<close> opens the file with mode \<^verbatim>\<open>w\<close> and dumps every book: the former
  content is replaced. An \<^verbatim>\<open>OSError\<close> is logged and the file stays as it was.
\<close>

definition save_books :: "LibraryInventory \<Rightarrow> disk \<times> lib_log \<Rightarrow> disk \<times> lib_log" where
  "save_books lib dl =
     (case dl of (d, lg) \<Rightarrow>
        if writable d
        then (d\<lparr>catalog := Catalog (map to_dict (books lib))\<rparr>,
              lg @ [(INFO, CatalogSaved (length (books lib)))])
        else (d, lg @ [(ERROR, SaveFailed)]))"

definition add_book :: "string \<Rightarrow> string \<Rightarrow> string \<Rightarrow> LibraryInventory \<times> disk \<times> lib_log
    \<Rightarrow> LibraryInventory \<times> disk \<times> lib_log" where
  "add_book t0 a0 i0 st =
     (case st of (lib, d, lg) \<Rightarrow>
        let t = strip t0; a = strip a0; i = strip i0
        in if t = [] \<or> a = [] \<or> i = [] then (lib, d, lg @ [(ERROR, FieldsRequired)])
           else if list_ex (\<lambda>b. isbn b = i) (books lib)
           then (lib, d, lg @ [(ERROR, AlreadyExists i)])
           else
             let book = Book_init t a i None;
                 lib1 = lib\<lparr>books := books lib @ [book]\<rparr>;
                 (d1, lg1) = save_books lib1 (d, lg)
             in (lib1, d1, lg1 @ [(INFO, AddedBook (title book))]))"

text \<open>
  \<^verbatim>\<open>search_by_isbn\<close> returns the first book with the ISBN; the object it returns is
  the element of \<^verbatim>\<open>self.books\<close>, here its position.
\<close>

fun find_isbn :: "Book list \<Rightarrow> string \<Rightarrow> nat option" where
  "find_isbn [] i = None"
| "find_isbn (b # bs) i = (if isbn b = i then Some 0 else map_option Suc (find_isbn bs i))"

definition search_by_isbn :: "LibraryInventory \<Rightarrow> string \<Rightarrow> nat option" where
  "search_by_isbn lib i0 = find_isbn (books lib) (strip i0)"

subsection \<open>The menu of main\<close>

datatype choice =
    AddBook string string string
  | IssueBook string
  | ReturnBook string
  | Other

datatype printed = Issued string | NotFoundOrIssued | Returned string | NotFoundOrNotIssued

record library =
  inventory :: LibraryInventory
  the_disk :: disk
  the_log :: lib_log
  prints :: "printed list"

text \<open>
  One turn of the loop of \<^verbatim>\<open>main\<close>. The choices that only print (view, search, invalid)
  and leave inventory and file alone are \<open>Other\<close>.
\<close>

definition turn :: "library \<Rightarrow> choice \<Rightarrow> library" where
  "turn l c =
     (case c of
        AddBook t a i \<Rightarrow>
          (case add_book t a i (inventory l, the_disk l, the_log l) of
             (lib, d, lg) \<Rightarrow> l\<lparr>inventory := lib, the_disk := d, the_log := lg\<rparr>)
      | IssueBook i \<Rightarrow>
          (case search_by_isbn (inventory l) i of
             None \<Rightarrow> l\<lparr>prints := prints l @ [NotFoundOrIssued]\<rparr>
           | Some k \<Rightarrow>
               (case issue (books (inventory l) ! k) of
                  (True, book) \<Rightarrow>
                    let lib = (inventory l)\<lparr>books := (books (inventory l))[k := book]\<rparr>;
                        (d, lg) = save_books lib (the_disk l, the_log l)
                    in l\<lparr>inventory := lib, the_disk := d, the_log := lg,
                         prints := prints l @ [Issued (title book)]\<rparr>
                | (False, book) \<Rightarrow> l\<lparr>prints := prints l @ [NotFoundOrIssued]\<rparr>))
      | ReturnBook i \<Rightarrow>
          (case search_by_isbn (inventory l) i of
             None \<Rightarrow> l\<lparr>prints := prints l @ [NotFoundOrNotIssued]\<rparr>
           | Some k \<Rightarrow>
               (case return_book (books (inventory l) ! k) of
                  (True, book) \<Rightarrow>
                    let lib = (inventory l)\<lparr>books := (books (inventory l))[k := book]\<rparr>;
                        (d, lg) = save_books lib (the_disk l, the_log l)
                    in l\<lparr>inventory := lib, the_disk := d, the_log := lg,
                         prints := prints l @ [Returned (title book)]\<rparr>
                | (False, book) \<Rightarrow> l\<lparr>prints := prints l @ [NotFoundOrNotIssued]\<rparr>))
      | Other \<Rightarrow> l)"

text \<open>
  A session: the inventory is loaded from the catalog file, then the choices are taken
  in turn.
\<close>

definition session :: "disk \<Rightarrow> choice list \<Rightarrow> lib_error + library" where
  "session d cs =
     (case load_books d [] of
        Inl e \<Rightarrow> Inl e
      | Inr (lib, lg) \<Rightarrow>
          Inr (foldl turn \<lparr>inventory = lib, the_disk = d, the_log = lg, prints = []\<rparr> cs))"

section \<open>Lab 4: the entry point of the weather visualizer\<close>

text \<open>
  \<^verbatim>\<open>main\<close> of the weather visualizer. The file system (\<open>exists\<close>, which stands for
  resolving the path and testing it), the loading and cleaning of the CSV
  (\<open>load_and_clean\<close>, \<open>None\<close> when it raises) and what follows it (statistics, plots,
  exports; \<open>rest\<close> tells whether they complete) depend on the file system, pandas and
  matplotlib and are parameters; the output directory is taken to be creatable. \<open>csv\<close>
  is the value of \<^verbatim>\<open>--csv\<close>, \<open>None\<close> when the option is omitted, and \<open>stdin\<close> the line
  \<^verbatim>\<open>input\<close> would read, \<open>None\<close> at end of input.
\<close>

datatype outcome = Exit int | Exception

record run =
  result :: outcome
  prompted :: bool

definition strip_quotes :: "string \<Rightarrow> string" where
  "strip_quotes s = rev (dropWhile (\<lambda>c. c = CHR 0x22) (rev (dropWhile (\<lambda>c. c = CHR 0x22) s)))"

definition weather_main :: "(string \<Rightarrow> bool) \<Rightarrow> (string \<Rightarrow> 'df option) \<Rightarrow> ('df \<Rightarrow> bool)
    \<Rightarrow> string option \<Rightarrow> string option \<Rightarrow> run" where
  "weather_main exists load_and_clean rest csv stdin =
     (let ask = (case csv of None \<Rightarrow> True | Some p \<Rightarrow> p = []);
          csv_path = (if ask then map_option (strip_quotes \<circ> strip) stdin else csv)
      in case csv_path of
           None \<Rightarrow> \<lparr>result = Exception, prompted = ask\<rparr>
         | Some csv_file \<Rightarrow>
             if \<not> exists csv_file then \<lparr>result = Exit 2, prompted = ask\<rparr>
             else (case load_and_clean csv_file of
                     None \<Rightarrow> \<lparr>result = Exit 3, prompted = ask\<rparr>
                   | Some frame \<Rightarrow>
                       if rest frame then \<lparr>result = Exit 0, prompted = ask\<rparr>
                       else \<lparr>result = Exception, prompted = ask\<rparr>))"

section \<open>Notions used by the statements\<close>

subsection \<open>Ingestion\<close>

text \<open>
  The rows of a file that get past the column check of \<^verbatim>\<open>load_data\<close>; none when the
  file cannot be read or lacks a required column.
\<close>

definition accepted_rows :: "csv_file \<Rightarrow> csv_row list" where
  "accepted_rows f =
     (case content f of
        ReadError \<Rightarrow> []
      | Frame cols rows \<Rightarrow> if ''timestamp'' \<notin> set cols \<or> ''kwh'' \<notin> set cols then [] else rows)"

text \<open>The building a file is loaded into, before and after the file.\<close>

definition target :: "loader \<Rightarrow> csv_file \<Rightarrow> Building" where
  "target s f = (case map_of (l_buildings s) (stem f) of None \<Rightarrow> new_Building (stem f) | Some b \<Rightarrow> b)"

definition loaded :: "pandas \<Rightarrow> loader \<Rightarrow> csv_file \<Rightarrow> error option \<times> Building" where
  "loaded p s f =
     process_readings p (foldl add_reading (target s f) (map to_reading (accepted_rows f)))"

text \<open>The number of rows the sources hold: the readings of all buildings.\<close>

definition readings_total :: "(string \<times> Building) list \<Rightarrow> nat" where
  "readings_total bs = sum_list (map (\<lambda>b. length (readings (snd b))) bs)"

text \<open>The state of the loop of \<^verbatim>\<open>load_data\<close> after the last file, from a new manager.\<close>

definition final_loader :: "pandas \<Rightarrow> string \<Rightarrow> csv_file list \<Rightarrow> loader" where
  "final_loader p d csv_files =
     foldl (load_file p d) \<lparr>l_buildings = [], all_data = [], l_log = []\<rparr> csv_files"

text \<open>
  The outcome of \<^verbatim>\<open>BuildingManager(d).load_data()\<close> on the given files: whether it
  raised, the manager and the log.
\<close>

definition ingest_error :: "pandas \<Rightarrow> string \<Rightarrow> csv_file list \<Rightarrow> error option" where
  "ingest_error p d csv_files = fst (load_data p csv_files (new_BuildingManager d) [])"

definition ingest :: "pandas \<Rightarrow> string \<Rightarrow> csv_file list \<Rightarrow> BuildingManager" where
  "ingest p d csv_files = fst (snd (load_data p csv_files (new_BuildingManager d) []))"

definition ingest_log :: "pandas \<Rightarrow> string \<Rightarrow> csv_file list \<Rightarrow> log_entry list" where
  "ingest_log p d csv_files = snd (snd (load_data p csv_files (new_BuildingManager d) []))"

text \<open>
  An instance of the library for the examples: it reads the timestamps of a small
  calendar, all in one format, and raises on a column with any other text; its float
  operations are exact, as the library's are on the small values of the examples.
\<close>

definition calendar :: "(string \<times> int) list" where
  "calendar =
     [(''2024-01-01 08:00'', 1704096000), (''2024-01-01 20:00'', 1704139200),
      (''2024-01-02 08:00'', 1704182400), (''2024-01-03 08:00'', 1704268800)]"

definition calendar_instant :: "string \<Rightarrow> int" where
  "calendar_instant c = (case map_of calendar c of None \<Rightarrow> 0 | Some t \<Rightarrow> t)"

definition lab_to_datetime :: "string list \<Rightarrow> (string \<Rightarrow> int) option" where
  "lab_to_datetime cs =
     (if list_all (\<lambda>c. map_of calendar c \<noteq> None) cs then Some calendar_instant else None)"

definition lab_to_float64 :: "64 word \<Rightarrow> rat" where
  "lab_to_float64 w = of_int (sint w)"

definition lab_mean :: "rat list \<Rightarrow> rat" where
  "lab_mean qs = sum_list qs / of_nat (length qs)"

definition lab :: pandas where
  "lab = \<lparr>to_datetime = lab_to_datetime, to_float64 = lab_to_float64, float_sum = sum_list,
          float_mean = lab_mean, float_group_sum = sum_list\<rparr>"

text \<open>Example files.\<close>

definition file_A :: csv_file where
  "file_A = \<lparr>stem = ''A'', content = Frame [''timestamp'', ''kwh'']
      [\<lparr>row_timestamp = ''2024-01-01 08:00'', row_kwh = IntCell 10\<rparr>,
       \<lparr>row_timestamp = ''2024-01-01 20:00'', row_kwh = IntCell 5\<rparr>]\<rparr>"

definition file_B :: csv_file where
  "file_B = \<lparr>stem = ''B'', content = Frame [''timestamp'', ''kwh'']
      [\<lparr>row_timestamp = ''2024-01-01 08:00'', row_kwh = IntCell 7\<rparr>]\<rparr>"

definition bad_time_file :: csv_file where
  "bad_time_file = \<lparr>stem = ''C'', content = Frame [''timestamp'', ''kwh'']
      [\<lparr>row_timestamp = ''hello'', row_kwh = IntCell 4\<rparr>]\<rparr>"



definition nan_row :: csv_row where
  "nan_row = \<lparr>row_timestamp = ''2024-01-01 08:00'', row_kwh = NaN\<rparr>"

definition sibling_row :: csv_row where
  "sibling_row = \<lparr>row_timestamp = ''2024-01-01 20:00'', row_kwh = FloatCell 5\<rparr>"


definition nan_file :: csv_file where
  "nan_file = \<lparr>stem = ''N'', content = Frame [''timestamp'', ''kwh''] [nan_row, sibling_row]\<rparr>"

definition no_kwh_file :: csv_file where
  "no_kwh_file = \<lparr>stem = ''K'', content = Frame [''timestamp'', ''temperature''] [sibling_row]\<rparr>"

subsection \<open>Daily totals\<close>








subsection \<open>The summary report\<close>

text \<open>
  The totals of the sources that have rows and a numeric quantity column, in the order
  in which the sources were first encountered.
\<close>

fun source_totals :: "pandas \<Rightarrow> (string \<times> Building) list \<Rightarrow> (string \<times> number) list" where
  "source_totals p [] = []"
| "source_totals p ((n, b) # bs) =
     (if df_empty (df b) then source_totals p bs
      else (case col_sum p (df_kwh (df b)) of
              None \<Rightarrow> source_totals p bs
            | Some t \<Rightarrow> (n, t) # source_totals p bs))"

text \<open>The world before a run: no file, nothing logged or printed.\<close>

definition fresh :: world where
  "fresh = \<lparr>w_files = [], w_log = [], w_stdout = []\<rparr>"

text \<open>A source whose only reading is 0 kWh.\<close>

definition zero_file :: csv_file where
  "zero_file = \<lparr>stem = ''Z'', content = Frame [''timestamp'', ''kwh'']
      [\<lparr>row_timestamp = ''2024-01-01 08:00'', row_kwh = IntCell 0\<rparr>]\<rparr>"

text \<open>A source whose total equals that of \<open>file_A\<close>.\<close>

definition file_E :: csv_file where
  "file_E = \<lparr>stem = ''E'', content = Frame [''timestamp'', ''kwh'']
      [\<lparr>row_timestamp = ''2024-01-01 08:00'', row_kwh = IntCell 15\<rparr>]\<rparr>"

subsection \<open>Runs of the dashboard\<close>

text \<open>The contents of the three report files under an output directory.\<close>

definition rendered :: "string \<Rightarrow> world \<Rightarrow> file_content option list" where
  "rendered out w =
     [map_of (w_files w) (out @ ''/building_summary.csv''),
      map_of (w_files w) (out @ ''/summary.txt''),
      map_of (w_files w) (out @ ''/cleaned_energy_data.csv'')]"

text \<open>
  The values that \<^verbatim>\<open>generate_summary_report\<close> computes from the manager when it
  completes: the statistics table and the lines of the summary.
\<close>

definition report_values :: "pandas \<Rightarrow> BuildingManager
    \<Rightarrow> error + building_stat list \<times> summary_line list" where
  "report_values p m =
     (case campus_total p m of
        None \<Rightarrow> Inl NonNumericQuantity
      | Some tc \<Rightarrow>
          (case building_loop p (buildings m) ([], None, Zero) of
             Inl e \<Rightarrow> Inl e
           | Inr (stats, h) \<Rightarrow>
               (case (if combined_df m \<noteq> []
                      then map_sum id (\<lambda>(r, q). [PeakLoad (c_timestamp r) q (c_building r)])
                             (peak_row p (combined_df m))
                      else Inr []) of
                  Inl e \<Rightarrow> Inl e
                | Inr peak \<Rightarrow>
                    Inr (stats, [Title, Rule, TotalConsumption tc, HighestConsumer (fst h) (snd h)] @ peak))))"

text \<open>A drawing that completes and one that raises.\<close>

definition plots_fine :: "BuildingManager \<Rightarrow> error option" where
  "plots_fine m = None"

definition plots_fail :: "BuildingManager \<Rightarrow> error option" where
  "plots_fail m = Some NoDatetimeIndex"

subsection \<open>The library inventory and the weather visualizer\<close>

text \<open>The two values a status may have.\<close>

definition valid_status :: "Book \<Rightarrow> bool" where
  "valid_status b \<longleftrightarrow> status b = ''available'' \<or> status b = ''issued''"

text \<open>A catalog of two books, the first issued, and a library holding it.\<close>

definition shelf :: "json_item list" where
  "shelf = [Entry ''Emma'' ''Austen'' ''11'' (Some '' Issued ''),
            Entry ''Ulysses'' ''Joyce'' ''22'' (Some ''lost'')]"

definition shelf_disk :: disk where
  "shelf_disk = \<lparr>catalog = Catalog shelf, writable = True\<rparr>"

definition shelf_library :: library where
  "shelf_library =
     \<lparr>inventory = \<lparr>books = [\<lparr>title = ''Emma'', author = ''Austen'', isbn = ''11'', status = ''issued''\<rparr>,
                             \<lparr>title = ''Ulysses'', author = ''Joyce'', isbn = ''22'', status = ''available''\<rparr>]\<rparr>,
      the_disk = shelf_disk, the_log = [], prints = []\<rparr>"

text \<open>Parameters for runs of the weather visualizer.\<close>

definition no_file :: "string \<Rightarrow> bool" where
  "no_file p = False"

definition any_file :: "string \<Rightarrow> bool" where
  "any_file p = True"

definition loads :: "string \<Rightarrow> unit option" where
  "loads p = Some ()"

definition load_fails :: "string \<Rightarrow> unit option" where
  "load_fails p = None"

definition completes :: "unit \<Rightarrow> bool" where
  "completes u = True"

text \<open>The path that \<^verbatim>\<open>main\<close> works with: the argument, or the answer to the prompt.\<close>

definition path_used :: "string option \<Rightarrow> string option \<Rightarrow> string option" where
  "path_used csv stdin =
     (if csv = None \<or> csv = Some [] then map_option (strip_quotes \<circ> strip) stdin else csv)"

section \<open>Proofs: ingestion\<close>

lemmas ingest_simps =
  ingest_def ingest_error_def ingest_log_def load_data_def new_BuildingManager_def load_file_def
  Let_def new_Building_def add_reading_def to_reading_def process_readings_def emit_def
  tag_row_def parsed_row_def unparsed_row_def file_path_def

lemmas lab_simps =
  lab_def lab_to_datetime_def calendar_def calendar_instant_def lab_to_float64_def lab_mean_def

lemma foldl_add_reading: "foldl add_reading b rs = b\<lparr>readings := readings b @ rs\<rparr>"
  by (induction rs arbitrary: b) (auto simp: add_reading_def)

lemma readings_process: "readings (snd (process_readings p b)) = readings b"
  by (auto simp: process_readings_def split: option.splits)

lemma load_file_rejected:
  assumes "content f = ReadError \<or>
    (\<exists>cols rows. content f = Frame cols rows \<and> (''timestamp'' \<notin> set cols \<or> ''kwh'' \<notin> set cols))"
  shows "l_buildings (load_file p d s f) = l_buildings s"
    and "all_data (load_file p d s f) = all_data s"
  using assms by (auto simp: load_file_def Let_def)

lemma load_file_accepted:
  assumes "content f = Frame cols rows" "''timestamp'' \<in> set cols" "''kwh'' \<in> set cols"
  shows "l_buildings (load_file p d s f) = AList.update (stem f) (snd (loaded p s f)) (l_buildings s)"
    and "all_data (load_file p d s f) =
           (if fst (loaded p s f) = None then all_data s @ [map (tag_row (stem f)) rows]
            else all_data s)"
    and "fst (loaded p s f) \<noteq> None \<Longrightarrow>
           (ERROR, ErrorReading (file_path d f)) \<in> set (l_log (load_file p d s f))"
  using assms
  by (auto simp: load_file_def Let_def loaded_def target_def accepted_rows_def emit_def
           split: prod.splits option.splits)

lemma loaded_readings:
  "readings (snd (loaded p s f)) = readings (target s f) @ map to_reading (accepted_rows f)"
  by (simp add: loaded_def readings_process foldl_add_reading)

lemma map_of_update: "map_of (AList.update k v al) = (map_of al)(k \<mapsto> v)"
  by (rule ext) (simp add: update_conv')



lemma load_file_appends:
  assumes "content f = Frame cols rows" "''timestamp'' \<in> set cols" "''kwh'' \<in> set cols"
  shows "\<exists>b'. map_of (l_buildings (load_file p d s f)) (stem f) = Some b' \<and>
              readings b' = readings (target s f) @ map to_reading rows"
proof -
  have "accepted_rows f = rows" using assms by (simp add: accepted_rows_def)
  then show ?thesis
    by (simp add: load_file_accepted(1) [OF assms] map_of_update loaded_readings)
qed

lemma load_data_final:
  "load_data p csv_files (new_BuildingManager d) [] =
     (if csv_files = [] then (None, new_BuildingManager d, [(WARNING, NoCsvFilesFound d)])
      else if all_data (final_loader p d csv_files) = []
      then (None,
            \<lparr>data_dir = d, buildings = l_buildings (final_loader p d csv_files), combined_df = []\<rparr>,
            l_log (final_loader p d csv_files))
      else (case to_datetime p (map t_timestamp (concat (all_data (final_loader p d csv_files)))) of
              None \<Rightarrow> (Some DateParseError,
                \<lparr>data_dir = d, buildings = l_buildings (final_loader p d csv_files),
                 combined_df = map unparsed_row (concat (all_data (final_loader p d csv_files)))\<rparr>,
                l_log (final_loader p d csv_files))
            | Some g \<Rightarrow> (None,
                \<lparr>data_dir = d, buildings = l_buildings (final_loader p d csv_files),
                 combined_df = map (parsed_row g) (concat (all_data (final_loader p d csv_files)))\<rparr>,
                l_log (final_loader p d csv_files)
                  @ [(INFO, CombinedDataLoaded (length (concat (all_data (final_loader p d csv_files)))))])))"
  by (simp add: load_data_def new_BuildingManager_def Let_def final_loader_def emit_def
      split: option.split)

lemma buildings_ingest:
  "buildings (ingest p d csv_files) = l_buildings (final_loader p d csv_files)"
  unfolding ingest_def load_data_final
  by (simp add: new_BuildingManager_def final_loader_def split: option.split)

lemma combined_ingest:
  "combined_df (ingest p d csv_files) =
     (case to_datetime p (map t_timestamp (concat (all_data (final_loader p d csv_files)))) of
        None \<Rightarrow> map unparsed_row (concat (all_data (final_loader p d csv_files)))
      | Some g \<Rightarrow> map (parsed_row g) (concat (all_data (final_loader p d csv_files))))"
  unfolding ingest_def load_data_final
  by (simp add: new_BuildingManager_def final_loader_def split: option.split)



lemma ingest_eq:
  "ingest p d csv_files =
     \<lparr>data_dir = d, buildings = l_buildings (final_loader p d csv_files),
      combined_df =
        (case to_datetime p (map t_timestamp (concat (all_data (final_loader p d csv_files)))) of
           None \<Rightarrow> map unparsed_row (concat (all_data (final_loader p d csv_files)))
         | Some g \<Rightarrow> map (parsed_row g) (concat (all_data (final_loader p d csv_files))))\<rparr>"
proof -
  have "data_dir (ingest p d csv_files) = d"
    unfolding ingest_def load_data_final
    by (simp add: new_BuildingManager_def split: option.split)
  then show ?thesis
    using buildings_ingest [of p d csv_files] combined_ingest [of p d csv_files]
    by (cases "ingest p d csv_files") simp
qed

lemma loaded_cong: "l_buildings s = l_buildings s' \<Longrightarrow> loaded p s f = loaded p s' f"
  by (simp add: loaded_def target_def)

lemma load_file_cong:
  assumes "l_buildings s = l_buildings s'" "all_data s = all_data s'"
  shows "l_buildings (load_file p d s f) = l_buildings (load_file p d' s' f) \<and>
         all_data (load_file p d s f) = all_data (load_file p d' s' f)"
proof (cases "\<exists>cols rows. content f = Frame cols rows \<and> ''timestamp'' \<in> set cols \<and> ''kwh'' \<in> set cols")
  case False
  then have r: "content f = ReadError \<or>
      (\<exists>cols rows. content f = Frame cols rows \<and> (''timestamp'' \<notin> set cols \<or> ''kwh'' \<notin> set cols))"
    by (cases "content f") auto
  from load_file_rejected [OF r, of p d s] load_file_rejected [OF r, of p d' s'] assms
  show ?thesis by simp
next
  case True
  then obtain cols rows where
    g: "content f = Frame cols rows" "''timestamp'' \<in> set cols" "''kwh'' \<in> set cols"
    by blast
  from load_file_accepted(1,2) [OF g, of p d s] load_file_accepted(1,2) [OF g, of p d' s'] assms
    loaded_cong [OF assms(1), of p f]
  show ?thesis by simp
qed

lemma foldl_load_file_cong:
  "l_buildings s = l_buildings s' \<Longrightarrow> all_data s = all_data s' \<Longrightarrow>
   l_buildings (foldl (load_file p d) s fs) = l_buildings (foldl (load_file p d') s' fs) \<and>
   all_data (foldl (load_file p d) s fs) = all_data (foldl (load_file p d') s' fs)"
proof (induction fs arbitrary: s s')
  case Nil
  then show ?case by simp
next
  case (Cons g fs)
  from load_file_cong [OF Cons.prems, of p d g d']
  have "l_buildings (load_file p d s g) = l_buildings (load_file p d' s' g)"
    and "all_data (load_file p d s g) = all_data (load_file p d' s' g)" by simp_all
  from Cons.IH [OF this] show ?case by simp
qed

lemma ingest_skips:
  assumes "content f = Frame cols rows" "''timestamp'' \<notin> set cols \<or> ''kwh'' \<notin> set cols"
  shows "ingest p d (pre @ f # post) = ingest p d (pre @ post)"
proof -
  define s1 where "s1 = final_loader p d pre"
  have r: "content f = ReadError \<or>
      (\<exists>cols rows. content f = Frame cols rows \<and> (''timestamp'' \<notin> set cols \<or> ''kwh'' \<notin> set cols))"
    using assms by blast
  from load_file_rejected [OF r, of p d s1]
  have "l_buildings (load_file p d s1 f) = l_buildings s1"
    "all_data (load_file p d s1 f) = all_data s1"
    by simp_all
  from foldl_load_file_cong [OF this, of p d post d]
  have a: "l_buildings (final_loader p d (pre @ f # post)) = l_buildings (final_loader p d (pre @ post))"
    and b: "all_data (final_loader p d (pre @ f # post)) = all_data (final_loader p d (pre @ post))"
    by (simp_all add: s1_def final_loader_def)
  show ?thesis unfolding ingest_eq a b by (rule refl)
qed

lemma log_grows: "set (l_log s) \<subseteq> set (l_log (load_file p d s g))"
  by (auto simp: load_file_def Let_def emit_def split: read_result.splits prod.splits option.splits)

lemma foldl_log_grows: "set (l_log s) \<subseteq> set (l_log (foldl (load_file p d) s fs))"
proof (induction fs arbitrary: s)
  case Nil
  show ?case by simp
next
  case (Cons g fs)
  from log_grows [of s p d g] Cons.IH [of "load_file p d s g"] show ?case by auto
qed

lemma log_levels:
  "e \<in> set (l_log (load_file p d s g)) \<Longrightarrow> e \<in> set (l_log s) \<or> fst e \<noteq> WARNING"
  by (auto simp: load_file_def Let_def emit_def
           split: read_result.splits prod.splits option.splits if_splits)

lemma foldl_log_levels:
  "e \<in> set (l_log (foldl (load_file p d) s fs)) \<Longrightarrow> e \<in> set (l_log s) \<or> fst e \<noteq> WARNING"
proof (induction fs arbitrary: s)
  case Nil
  then show ?case by simp
next
  case (Cons g fs)
  from Cons.IH [of "load_file p d s g"] Cons.prems log_levels [of e p d s g] show ?case by auto
qed

lemma ingest_log_eq:
  assumes "csv_files \<noteq> []"
  shows "set (l_log (final_loader p d csv_files)) \<subseteq> set (ingest_log p d csv_files)"
    and "e \<in> set (ingest_log p d csv_files) \<Longrightarrow>
           e \<in> set (l_log (final_loader p d csv_files)) \<or> fst e = INFO"
proof -
  show "set (l_log (final_loader p d csv_files)) \<subseteq> set (ingest_log p d csv_files)"
    using assms unfolding ingest_log_def load_data_final by (auto split: option.split)
  show "e \<in> set (ingest_log p d csv_files) \<Longrightarrow>
           e \<in> set (l_log (final_loader p d csv_files)) \<or> fst e = INFO"
    using assms unfolding ingest_log_def load_data_final by (auto split: option.splits if_splits)
qed

lemma skip_logged:
  assumes "content f = Frame cols rows" "''timestamp'' \<notin> set cols \<or> ''kwh'' \<notin> set cols"
  shows "(ERROR, SkippingMissingColumns (file_path d f)) \<in> set (ingest_log p d (pre @ f # post))"
proof -
  define s1 where "s1 = final_loader p d pre"
  have "(ERROR, SkippingMissingColumns (file_path d f)) \<in> set (l_log (load_file p d s1 f))"
    using assms by (auto simp: load_file_def Let_def emit_def)
  with foldl_log_grows [of "load_file p d s1 f" p d post]
  have "(ERROR, SkippingMissingColumns (file_path d f))
          \<in> set (l_log (final_loader p d (pre @ f # post)))"
    by (auto simp: s1_def final_loader_def)
  with ingest_log_eq(1) [of "pre @ f # post" p d] show ?thesis by auto
qed

lemma no_warning:
  assumes "csv_files \<noteq> []" "e \<in> set (ingest_log p d csv_files)"
  shows "fst e \<noteq> WARNING"
proof -
  from ingest_log_eq(2) [OF assms] consider
    "e \<in> set (l_log (final_loader p d csv_files))" | "fst e = INFO" by blast
  then show ?thesis
  proof cases
    case 1
    then have "e \<in> set (l_log \<lparr>l_buildings = [], all_data = [], l_log = []\<rparr>) \<or> fst e \<noteq> WARNING"
      unfolding final_loader_def by (rule foldl_log_levels)
    then show ?thesis by simp
  next
    case 2
    then show ?thesis by simp
  qed
qed

text \<open>
  C4 (as amended). A file that lacks the timestamp column or the kwh column is skipped
  as a whole and logged as an error, and the other files are processed as if it were not
  there. No row is skipped: a file \<open>g\<close> with both columns has all its rows, in order,
  appended to the readings of its source, whatever their cells hold; and with at least
  one file, ingestion logs no warning.
\<close>

theorem files_skipped_rows_kept:
  "(content f = Frame cols rows \<and> (''timestamp'' \<notin> set cols \<or> ''kwh'' \<notin> set cols) \<longrightarrow>
      ingest p d (pre @ f # post) = ingest p d (pre @ post) \<and>
      (ERROR, SkippingMissingColumns (file_path d f)) \<in> set (ingest_log p d (pre @ f # post))) \<and>
   (content g = Frame cols' rows' \<and> ''timestamp'' \<in> set cols' \<and> ''kwh'' \<in> set cols' \<longrightarrow>
      (\<exists>b. map_of (l_buildings (load_file p d s g)) (stem g) = Some b \<and>
           readings b = readings (target s g) @ map to_reading rows')) \<and>
   (csv_files \<noteq> [] \<longrightarrow> (\<forall>e \<in> set (ingest_log p d csv_files). fst e \<noteq> WARNING))"
  using ingest_skips [of f cols rows p d pre post] skip_logged [of f cols rows d p pre post]
    load_file_appends [of g cols' rows' p d s] no_warning [of csv_files _ p d]
  by blast

theorem files_skipped_rows_kept_witness:
  "content no_kwh_file = Frame [''timestamp'', ''temperature''] [sibling_row] \<and>
   ''kwh'' \<notin> set [''timestamp'', ''temperature''] \<and>
   ingest lab ''data'' ([file_A] @ no_kwh_file # [file_B]) = ingest lab ''data'' ([file_A] @ [file_B]) \<and>
   (ERROR, SkippingMissingColumns (file_path ''data'' no_kwh_file))
     \<in> set (ingest_log lab ''data'' ([file_A] @ no_kwh_file # [file_B])) \<and>
   content nan_file = Frame [''timestamp'', ''kwh''] [nan_row, sibling_row] \<and>
   (\<exists>b. map_of (l_buildings (load_file lab ''data''
            \<lparr>l_buildings = [], all_data = [], l_log = []\<rparr> nan_file)) (stem nan_file) = Some b \<and>
        readings b = [to_reading nan_row, to_reading sibling_row]) \<and>
   (WARNING, NoCsvFilesFound ''data'') \<notin> set (ingest_log lab ''data'' [nan_file])"
proof -
  have 1: "content no_kwh_file = Frame [''timestamp'', ''temperature''] [sibling_row]"
    by (simp add: no_kwh_file_def)
  have 2: "''kwh'' \<notin> set [''timestamp'', ''temperature'']" by simp
  have 3: "content nan_file = Frame [''timestamp'', ''kwh''] [nan_row, sibling_row]"
    by (simp add: nan_file_def)
  have 4: "''timestamp'' \<in> set [''timestamp'', ''kwh'']" "''kwh'' \<in> set [''timestamp'', ''kwh'']"
    by simp_all
  have 5: "[nan_file] \<noteq> []" by simp
  have 6: "readings (target \<lparr>l_buildings = [], all_data = [], l_log = []\<rparr> nan_file) = []"
    by (simp add: target_def new_Building_def)
  from files_skipped_rows_kept [of no_kwh_file "[''timestamp'', ''temperature'']" "[sibling_row]"
      lab "''data''" "[file_A]" "[file_B]" nan_file "[''timestamp'', ''kwh'']" "[nan_row, sibling_row]"
      "\<lparr>l_buildings = [], all_data = [], l_log = []\<rparr>" "[nan_file]"] 1 2 3 4 5 6
  show ?thesis by fastforce
qed

text \<open>
  C4 as stated fails: a row with an empty quantity cell is not skipped and no warning is
  logged for it.
\<close>

theorem row_skipped_counterexample:
  "map_of (buildings (ingest lab ''data'' [nan_file])) ''N'' =
     Some \<lparr>name = ''N'', readings = [to_reading nan_row, to_reading sibling_row],
           df = TimeIndexed [(1704096000, NaN), (1704139200, FloatCell 5)]\<rparr> \<and>
   combined_df (ingest lab ''data'' [nan_file]) =
     [\<lparr>c_timestamp = At 1704096000, c_kwh = NaN, c_building = ''N''\<rparr>,
      \<lparr>c_timestamp = At 1704139200, c_kwh = FloatCell 5, c_building = ''N''\<rparr>] \<and>
   ingest_log lab ''data'' [nan_file] = [(INFO, Loading ''N''), (INFO, CombinedDataLoaded 2)]"
  by (simp add: ingest_simps lab_simps nan_file_def nan_row_def sibling_row_def)








text \<open>
  C2. The claim holds of no run in which \<^verbatim>\<open>pd.to_datetime\<close> raises on the timestamps of
  a file: \<^verbatim>\<open>load_data\<close> has added the rows to the readings of the source before
  \<^verbatim>\<open>process_readings\<close> raises, the \<^verbatim>\<open>except\<close> only logs, and the rows never reach the
  combined table. For a single such file the run ends without an exception, with an empty
  combined table and a source that holds all the rows.
\<close>

theorem failed_file_stays_in_source:
  assumes "content f = Frame cols rows" and "''timestamp'' \<in> set cols" and "''kwh'' \<in> set cols"
    and "rows \<noteq> []" and "to_datetime p (map row_timestamp rows) = None"
  shows "ingest_error p d [f] = None \<and> combined_df (ingest p d [f]) = [] \<and>
         readings_total (buildings (ingest p d [f])) = length rows"
proof -
  have m: "map (timestamp \<circ> to_reading) rows = map row_timestamp rows"
    by (simp add: to_reading_def)
  have r: "foldl add_reading (new_Building (stem f)) (map to_reading rows) =
      \<lparr>name = stem f, readings = map to_reading rows, df = EmptyFrame\<rparr>"
    by (simp add: foldl_add_reading new_Building_def)
  show ?thesis
    using assms
    by (simp add: ingest_def ingest_error_def load_data_def new_BuildingManager_def load_file_def
        Let_def r process_readings_def m readings_total_def)
qed

theorem failed_file_stays_in_source_witness:
  "content bad_time_file = Frame [''timestamp'', ''kwh'']
      [\<lparr>row_timestamp = ''hello'', row_kwh = IntCell 4\<rparr>] \<and>
   to_datetime lab [''hello''] = None \<and>
   ingest_error lab ''data'' [bad_time_file] = None \<and>
   combined_df (ingest lab ''data'' [bad_time_file]) = [] \<and>
   readings_total (buildings (ingest lab ''data'' [bad_time_file])) = 1 \<and>
   ingest_log lab ''data'' [bad_time_file] =
     [(INFO, Loading ''C''), (ERROR, ErrorReading ''data/C.csv'')]"
proof -
  have 1: "content bad_time_file = Frame [''timestamp'', ''kwh'']
      [\<lparr>row_timestamp = ''hello'', row_kwh = IntCell 4\<rparr>]"
    by (simp add: bad_time_file_def)
  have 2: "''timestamp'' \<in> set [''timestamp'', ''kwh'']" "''kwh'' \<in> set [''timestamp'', ''kwh'']"
    by simp_all
  have 3: "[\<lparr>row_timestamp = ''hello'', row_kwh = IntCell 4\<rparr>] \<noteq> []" by simp
  have 4: "to_datetime lab (map row_timestamp [\<lparr>row_timestamp = ''hello'', row_kwh = IntCell 4\<rparr>]) = None"
    by (simp add: lab_simps)
  have 5: "ingest_log lab ''data'' [bad_time_file] =
     [(INFO, Loading ''C''), (ERROR, ErrorReading ''data/C.csv'')]"
    by (simp add: ingest_simps lab_simps bad_time_file_def)
  from failed_file_stays_in_source [OF 1 2 3 4, of "''data''"] 1 4 5 show ?thesis by simp
qed

section \<open>Proofs: daily totals\<close>























section \<open>Proofs: the summary report\<close>

lemma building_loop_unnamed:
  assumes "building_loop p bs (st, None, Zero) = Inr (st', h)"
    and "list_all (\<lambda>s. \<not> greater p (snd s) Zero) (source_totals p bs)"
  shows "h = (None, Zero)"
  using assms
proof (induction bs arbitrary: st)
  case Nil
  then show ?case by simp
next
  case (Cons x bs)
  obtain n b where x: "x = (n, b)" by (cases x)
  show ?case
  proof (cases "df_empty (df b)")
    case True
    with Cons.prems x have "building_loop p bs (st, None, Zero) = Inr (st', h)"
      and "list_all (\<lambda>s. \<not> greater p (snd s) Zero) (source_totals p bs)" by simp_all
    then show ?thesis by (rule Cons.IH)
  next
    case False
    with Cons.prems(1) x obtain t where t: "col_sum p (df_kwh (df b)) = Some t"
      by (cases "col_sum p (df_kwh (df b))") auto
    from Cons.prems(2) x False t have ng: "\<not> greater p t Zero"
      and rest: "list_all (\<lambda>s. \<not> greater p (snd s) Zero) (source_totals p bs)" by simp_all
    define st1 where "st1 = st @ [\<lparr>st_building = n, st_total = t,
        st_average = col_mean p (df_kwh (df b)), st_max = col_max p (df_kwh (df b))\<rparr>]"
    have "building_loop p bs (st1, None, Zero) = Inr (st', h)"
      using Cons.prems(1) x False t ng by (simp add: Let_def st1_def)
    from Cons.IH [OF this rest] show ?thesis .
  qed
qed

lemma report_lines:
  assumes "generate_summary_report p d m w = (None, w')"
  shows "\<exists>stats h tc peak. building_loop p (buildings m) ([], None, Zero) = Inr (stats, h) \<and>
           map_of (w_files w') (d @ ''/summary.txt'') =
             Some (SummaryTxt ([Title, Rule, TotalConsumption tc, HighestConsumer (fst h) (snd h)] @ peak))"
  using assms
  by (auto simp: generate_summary_report_def Let_def write_file_def logging_def update_conv'
           split: option.splits sum.splits prod.splits if_splits)

lemmas report_simps =
  generate_summary_report_def campus_total_def peak_row_def col_sum_def col_mean_def col_max_def
  dtype_of_def cell_number_def greater_def smax_def Let_def
  write_file_def logging_def emit_def df_empty_def df_kwh_def

text \<open>
  C5. The loop starts from \<^verbatim>\<open>(None, 0)\<close> and replaces the highest consumer only by a
  total that is greater: when the report completes and no source has a total above 0, the
  summary names no source, with the quantity 0, although sources with rows exist and one
  of them has the largest total.
\<close>

theorem highest_consumer_unnamed:
  assumes "generate_summary_report p d m w = (None, w')"
    and "source_totals p (buildings m) \<noteq> []"
    and "list_all (\<lambda>s. \<not> greater p (snd s) Zero) (source_totals p (buildings m))"
  shows "\<exists>tc peak. map_of (w_files w') (d @ ''/summary.txt'') =
           Some (SummaryTxt ([Title, Rule, TotalConsumption tc, HighestConsumer None Zero] @ peak))"
proof -
  from report_lines [OF assms(1)] obtain stats h tc peak where
    bl: "building_loop p (buildings m) ([], None, Zero) = Inr (stats, h)" and
    f: "map_of (w_files w') (d @ ''/summary.txt'') =
          Some (SummaryTxt ([Title, Rule, TotalConsumption tc, HighestConsumer (fst h) (snd h)] @ peak))"
    by blast
  from building_loop_unnamed [OF bl assms(3)] have "h = (None, Zero)" .
  with f show ?thesis by auto
qed

theorem highest_consumer_unnamed_witness:
  "source_totals lab (buildings (ingest lab ''data'' [zero_file])) = [(''Z'', I64 0)] \<and>
   \<not> greater lab (I64 0) Zero \<and>
   generate_summary_report lab ''out'' (ingest lab ''data'' [zero_file]) fresh =
     (None,
      \<lparr>w_files =
         [(''out/building_summary.csv'',
           SummaryCsv [\<lparr>st_building = ''Z'', st_total = I64 0, st_average = Some (F64 0),
                        st_max = Some (I64 0)\<rparr>]),
          (''out/summary.txt'',
           SummaryTxt [Title, Rule, TotalConsumption (I64 0), HighestConsumer None Zero,
                       PeakLoad (At 1704096000) (I64 0) ''Z'']),
          (''out/cleaned_energy_data.csv'',
           CleanedCsv [\<lparr>c_timestamp = At 1704096000, c_kwh = IntCell 0, c_building = ''Z''\<rparr>])],
       w_log =
         [(INFO, BuildingSummarySaved ''out/building_summary.csv''),
          (INFO, SummaryReportSaved ''out/summary.txt''),
          (INFO, CleanedDataExported ''out/cleaned_energy_data.csv'')],
       w_stdout =
         [[Title, Rule, TotalConsumption (I64 0), HighestConsumer None Zero,
           PeakLoad (At 1704096000) (I64 0) ''Z'']]\<rparr>) \<and>
   (\<exists>tc peak. map_of (w_files (snd (generate_summary_report lab ''out''
                  (ingest lab ''data'' [zero_file]) fresh))) (''out'' @ ''/summary.txt'') =
      Some (SummaryTxt ([Title, Rule, TotalConsumption tc, HighestConsumer None Zero] @ peak)))"
proof -
  define m where "m = ingest lab ''data'' [zero_file]"
  have m: "m = \<lparr>data_dir = ''data'',
      buildings =
        [(''Z'', \<lparr>name = ''Z'',
                  readings = [\<lparr>timestamp = ''2024-01-01 08:00'', kwh = IntCell 0\<rparr>],
                  df = TimeIndexed [(1704096000, IntCell 0)]\<rparr>)],
      combined_df = [\<lparr>c_timestamp = At 1704096000, c_kwh = IntCell 0, c_building = ''Z''\<rparr>]\<rparr>"
    unfolding m_def by (simp add: ingest_simps lab_simps zero_file_def)
  define w' where "w' = snd (generate_summary_report lab ''out'' m fresh)"
  have t: "source_totals lab (buildings m) = [(''Z'', I64 0)]"
    unfolding m by (simp add: report_simps)
  have ng: "\<not> greater lab (I64 0) Zero" by (simp add: greater_def)
  have g: "generate_summary_report lab ''out'' m fresh =
     (None,
      \<lparr>w_files =
         [(''out/building_summary.csv'',
           SummaryCsv [\<lparr>st_building = ''Z'', st_total = I64 0, st_average = Some (F64 0),
                        st_max = Some (I64 0)\<rparr>]),
          (''out/summary.txt'',
           SummaryTxt [Title, Rule, TotalConsumption (I64 0), HighestConsumer None Zero,
                       PeakLoad (At 1704096000) (I64 0) ''Z'']),
          (''out/cleaned_energy_data.csv'',
           CleanedCsv [\<lparr>c_timestamp = At 1704096000, c_kwh = IntCell 0, c_building = ''Z''\<rparr>])],
       w_log =
         [(INFO, BuildingSummarySaved ''out/building_summary.csv''),
          (INFO, SummaryReportSaved ''out/summary.txt''),
          (INFO, CleanedDataExported ''out/cleaned_energy_data.csv'')],
       w_stdout =
         [[Title, Rule, TotalConsumption (I64 0), HighestConsumer None Zero,
           PeakLoad (At 1704096000) (I64 0) ''Z'']]\<rparr>)"
    unfolding m by (simp add: report_simps lab_simps fresh_def)
  then have g': "generate_summary_report lab ''out'' m fresh = (None, w')" by (simp add: w'_def)
  have ne: "source_totals lab (buildings m) \<noteq> []" unfolding t by simp
  have la: "list_all (\<lambda>s. \<not> greater lab (snd s) Zero) (source_totals lab (buildings m))"
    unfolding t using ng by simp
  from highest_consumer_unnamed [OF g' ne la] t ng g show ?thesis
    unfolding m_def [symmetric] w'_def [symmetric] by blast
qed

section \<open>Proofs: runs of the dashboard\<close>

lemma load_data_two_runs:
  "fst (load_data p fs (new_BuildingManager d1) lg1) = fst (load_data p fs (new_BuildingManager d2) lg2) \<and>
   buildings (fst (snd (load_data p fs (new_BuildingManager d1) lg1))) =
     buildings (fst (snd (load_data p fs (new_BuildingManager d2) lg2))) \<and>
   combined_df (fst (snd (load_data p fs (new_BuildingManager d1) lg1))) =
     combined_df (fst (snd (load_data p fs (new_BuildingManager d2) lg2)))"
proof -
  let ?s1 = "foldl (load_file p d1) \<lparr>l_buildings = [], all_data = [], l_log = lg1\<rparr> fs"
  let ?s2 = "foldl (load_file p d2) \<lparr>l_buildings = [], all_data = [], l_log = lg2\<rparr> fs"
  have "l_buildings \<lparr>l_buildings = [], all_data = [], l_log = lg1\<rparr> =
        l_buildings \<lparr>l_buildings = [], all_data = [], l_log = lg2\<rparr>"
    and "all_data \<lparr>l_buildings = [], all_data = [], l_log = lg1\<rparr> =
        all_data \<lparr>l_buildings = [], all_data = [], l_log = lg2\<rparr>" by simp_all
  from foldl_load_file_cong [OF this, of p d1 fs d2]
  have a: "l_buildings ?s1 = l_buildings ?s2" and b: "all_data ?s1 = all_data ?s2" by simp_all
  show ?thesis
    unfolding load_data_def new_BuildingManager_def Let_def
    by (simp add: a b split: option.split)
qed

lemma map_of_update_other: "k' \<noteq> k \<Longrightarrow> map_of (AList.update k v al) k' = map_of al k'"
  by (simp add: update_conv')

lemma map_of_update_same: "map_of (AList.update k v al) k = Some v"
  by (simp add: update_conv')

lemma report_raises:
  "report_values p m = Inl e \<Longrightarrow> fst (generate_summary_report p d m w) = Some e"
  by (auto simp: report_values_def generate_summary_report_def Let_def
           split: option.splits sum.splits prod.splits if_splits)

lemma report_completes:
  assumes "report_values p m = Inr (stats, lines)"
  shows "fst (generate_summary_report p d m w) = None"
    and "rendered d (snd (generate_summary_report p d m w)) =
           [Some (SummaryCsv stats), Some (SummaryTxt lines), Some (CleanedCsv (combined_df m))]"
    and "w_stdout (snd (generate_summary_report p d m w)) = w_stdout w @ [lines]"
proof -
  from assms obtain tc h peak where
    tc: "campus_total p m = Some tc" and
    bl: "building_loop p (buildings m) ([], None, Zero) = Inr (stats, h)" and
    pk: "(if combined_df m \<noteq> []
          then map_sum id (\<lambda>(r, q). [PeakLoad (c_timestamp r) q (c_building r)]) (peak_row p (combined_df m))
          else Inr []) = Inr peak" and
    ln: "lines = [Title, Rule, TotalConsumption tc, HighestConsumer (fst h) (snd h)] @ peak"
    by (auto simp: report_values_def split: option.splits sum.splits prod.splits)
  have g: "generate_summary_report p d m w =
      (None,
       (logging INFO (CleanedDataExported (d @ ''/cleaned_energy_data.csv''))
          (write_file (d @ ''/cleaned_energy_data.csv'') (CleanedCsv (combined_df m))
             (logging INFO (SummaryReportSaved (d @ ''/summary.txt''))
                (write_file (d @ ''/summary.txt'') (SummaryTxt lines)
                   (logging INFO (BuildingSummarySaved (d @ ''/building_summary.csv''))
                      (write_file (d @ ''/building_summary.csv'') (SummaryCsv stats) w))))))
       \<lparr>w_stdout := w_stdout w @ [lines]\<rparr>)"
    unfolding generate_summary_report_def tc bl pk ln
    by (simp add: Let_def logging_def write_file_def)
  show "fst (generate_summary_report p d m w) = None" by (simp add: g)
  show "w_stdout (snd (generate_summary_report p d m w)) = w_stdout w @ [lines]" by (simp add: g)
  show "rendered d (snd (generate_summary_report p d m w)) =
           [Some (SummaryCsv stats), Some (SummaryTxt lines), Some (CleanedCsv (combined_df m))]"
    by (simp add: g rendered_def logging_def write_file_def map_of_update_other map_of_update_same)
qed

lemma report_values_cong:
  assumes "buildings m = buildings m'" and "combined_df m = combined_df m'"
  shows "report_values p m = report_values p m'"
  unfolding report_values_def campus_total_def assms ..

lemma dashboard_keeps_reports:
  "rendered out (snd (create_dashboard draw out m w)) = rendered out w"
  by (simp add: create_dashboard_def rendered_def logging_def write_file_def Let_def
      map_of_update_other split: option.split)

lemma main_unfold:
  "main p draw b fs w =
     (case fst (load_data p fs (new_BuildingManager (b @ ''/data'')) (w_log w)) of
        Some e \<Rightarrow> (Some e, w\<lparr>w_log := snd (snd (load_data p fs (new_BuildingManager (b @ ''/data'')) (w_log w)))\<rparr>)
      | None \<Rightarrow>
          (case fst (generate_summary_report p (b @ ''/output'')
                       (fst (snd (load_data p fs (new_BuildingManager (b @ ''/data'')) (w_log w))))
                       (w\<lparr>w_log := snd (snd (load_data p fs (new_BuildingManager (b @ ''/data'')) (w_log w)))\<rparr>)) of
             Some e \<Rightarrow>
               (Some e, snd (generate_summary_report p (b @ ''/output'')
                       (fst (snd (load_data p fs (new_BuildingManager (b @ ''/data'')) (w_log w))))
                       (w\<lparr>w_log := snd (snd (load_data p fs (new_BuildingManager (b @ ''/data'')) (w_log w)))\<rparr>)))
           | None \<Rightarrow>
               create_dashboard draw (b @ ''/output'')
                 (fst (snd (load_data p fs (new_BuildingManager (b @ ''/data'')) (w_log w))))
                 (snd (generate_summary_report p (b @ ''/output'')
                       (fst (snd (load_data p fs (new_BuildingManager (b @ ''/data'')) (w_log w))))
                       (w\<lparr>w_log := snd (snd (load_data p fs (new_BuildingManager (b @ ''/data'')) (w_log w)))\<rparr>)))))"
proof -
  obtain e1 m lg where L: "load_data p fs (new_BuildingManager (b @ ''/data'')) (w_log w) = (e1, m, lg)"
    by (cases "load_data p fs (new_BuildingManager (b @ ''/data'')) (w_log w)")
  obtain e2 v where G: "generate_summary_report p (b @ ''/output'') m (w\<lparr>w_log := lg\<rparr>) = (e2, v)"
    by (cases "generate_summary_report p (b @ ''/output'') m (w\<lparr>w_log := lg\<rparr>)")
  show ?thesis unfolding main_def Let_def L by (simp add: G split: option.split)
qed

text \<open>
  C8 (as amended). The three report outputs are determined by the input files in the
  order in which they are listed: when a run completes, any other run over the same files
  in the same order writes the same values to the statistics table, the summary and the
  combined export, whatever its base directory, the files and log entries that existed
  before, and the outcome of its plotting; in particular a rerun in place renders them
  again unchanged.
\<close>

theorem reports_determined_by_input:
  assumes "fst (main p draw1 b1 csv_files w1) = None"
  shows "rendered (b1 @ ''/output'') (snd (main p draw1 b1 csv_files w1)) =
           rendered (b2 @ ''/output'') (snd (main p draw2 b2 csv_files w2)) \<and>
         None \<notin> set (rendered (b1 @ ''/output'') (snd (main p draw1 b1 csv_files w1)))"
proof -
  define L1 where "L1 = load_data p csv_files (new_BuildingManager (b1 @ ''/data'')) (w_log w1)"
  define L2 where "L2 = load_data p csv_files (new_BuildingManager (b2 @ ''/data'')) (w_log w2)"
  define m1 where "m1 = fst (snd L1)"
  define m2 where "m2 = fst (snd L2)"
  define v1 where "v1 = w1\<lparr>w_log := snd (snd L1)\<rparr>"
  define v2 where "v2 = w2\<lparr>w_log := snd (snd L2)\<rparr>"
  define o1 where "o1 = b1 @ ''/output''"
  define o2 where "o2 = b2 @ ''/output''"
  have main1: "main p draw1 b1 csv_files w1 =
     (case fst L1 of Some e \<Rightarrow> (Some e, v1)
      | None \<Rightarrow> (case fst (generate_summary_report p o1 m1 v1) of
                   Some e \<Rightarrow> (Some e, snd (generate_summary_report p o1 m1 v1))
                 | None \<Rightarrow> create_dashboard draw1 o1 m1 (snd (generate_summary_report p o1 m1 v1))))"
    unfolding L1_def m1_def v1_def o1_def by (rule main_unfold)
  have main2: "main p draw2 b2 csv_files w2 =
     (case fst L2 of Some e \<Rightarrow> (Some e, v2)
      | None \<Rightarrow> (case fst (generate_summary_report p o2 m2 v2) of
                   Some e \<Rightarrow> (Some e, snd (generate_summary_report p o2 m2 v2))
                 | None \<Rightarrow> create_dashboard draw2 o2 m2 (snd (generate_summary_report p o2 m2 v2))))"
    unfolding L2_def m2_def v2_def o2_def by (rule main_unfold)
  from load_data_two_runs [of p csv_files "b1 @ ''/data''" "w_log w1" "b2 @ ''/data''" "w_log w2"]
  have same: "fst L1 = fst L2" "buildings m1 = buildings m2" "combined_df m1 = combined_df m2"
    by (simp_all add: L1_def L2_def m1_def m2_def)
  from assms main1 have l1: "fst L1 = None"
    by (cases "fst L1") simp_all
  from assms main1 l1 have g1: "fst (generate_summary_report p o1 m1 v1) = None"
    by (cases "fst (generate_summary_report p o1 m1 v1)") simp_all
  have rv: "report_values p m1 = report_values p m2" using same(2,3) by (rule report_values_cong)
  obtain stats lines where r1: "report_values p m1 = Inr (stats, lines)"
  proof (cases "report_values p m1")
    case (Inl e)
    from report_raises [OF this, of o1 v1] g1 show ?thesis by simp
  next
    case (Inr x)
    then show ?thesis using that by (cases x) simp
  qed
  then have r2: "report_values p m2 = Inr (stats, lines)" using rv by simp
  have g2: "fst (generate_summary_report p o2 m2 v2) = None" by (rule report_completes(1) [OF r2])
  have e1: "rendered o1 (snd (main p draw1 b1 csv_files w1)) =
      [Some (SummaryCsv stats), Some (SummaryTxt lines), Some (CleanedCsv (combined_df m1))]"
    using l1 g1 report_completes(2) [OF r1, of o1 v1]
    by (simp add: main1 dashboard_keeps_reports)
  have "snd (main p draw2 b2 csv_files w2) =
      snd (create_dashboard draw2 o2 m2 (snd (generate_summary_report p o2 m2 v2)))"
    using l1 same(1) g2 by (simp add: main2)
  then have e2: "rendered o2 (snd (main p draw2 b2 csv_files w2)) =
      [Some (SummaryCsv stats), Some (SummaryTxt lines), Some (CleanedCsv (combined_df m2))]"
    using report_completes(2) [OF r2, of o2 v2] by (simp add: dashboard_keeps_reports)
  from e1 e2 same(3) show ?thesis by (simp add: o1_def o2_def)
qed

theorem reports_determined_by_input_witness:
  "fst (main lab plots_fine ''a'' [file_A, file_B] fresh) = None \<and>
   rendered (''a'' @ ''/output'') (snd (main lab plots_fine ''a'' [file_A, file_B] fresh)) =
     rendered (''a'' @ ''/output'')
       (snd (main lab plots_fail ''a'' [file_A, file_B]
               (snd (main lab plots_fine ''a'' [file_A, file_B] fresh)))) \<and>
   rendered (''a'' @ ''/output'') (snd (main lab plots_fine ''a'' [file_A, file_B] fresh)) =
     [Some (SummaryCsv
        [\<lparr>st_building = ''A'', st_total = I64 15, st_average = Some (F64 (15 / 2)),
          st_max = Some (I64 10)\<rparr>,
         \<lparr>st_building = ''B'', st_total = I64 7, st_average = Some (F64 7),
          st_max = Some (I64 7)\<rparr>]),
      Some (SummaryTxt [Title, Rule, TotalConsumption (I64 22), HighestConsumer (Some ''A'') (I64 15),
                        PeakLoad (At 1704096000) (I64 10) ''A'']),
      Some (CleanedCsv
        [\<lparr>c_timestamp = At 1704096000, c_kwh = IntCell 10, c_building = ''A''\<rparr>,
         \<lparr>c_timestamp = At 1704139200, c_kwh = IntCell 5, c_building = ''A''\<rparr>,
         \<lparr>c_timestamp = At 1704096000, c_kwh = IntCell 7, c_building = ''B''\<rparr>])]"
proof -
  have run: "main lab plots_fine ''a'' [file_A, file_B] fresh =
    (None,
     \<lparr>w_files =
        [(''a/output/building_summary.csv'',
          SummaryCsv
           [\<lparr>st_building = ''A'', st_total = I64 15, st_average = Some (F64 (15 / 2)),
             st_max = Some (I64 10)\<rparr>,
            \<lparr>st_building = ''B'', st_total = I64 7, st_average = Some (F64 7),
             st_max = Some (I64 7)\<rparr>]),
         (''a/output/summary.txt'',
          SummaryTxt [Title, Rule, TotalConsumption (I64 22), HighestConsumer (Some ''A'') (I64 15),
                      PeakLoad (At 1704096000) (I64 10) ''A'']),
         (''a/output/cleaned_energy_data.csv'',
          CleanedCsv
           [\<lparr>c_timestamp = At 1704096000, c_kwh = IntCell 10, c_building = ''A''\<rparr>,
            \<lparr>c_timestamp = At 1704139200, c_kwh = IntCell 5, c_building = ''A''\<rparr>,
            \<lparr>c_timestamp = At 1704096000, c_kwh = IntCell 7, c_building = ''B''\<rparr>]),
         (''a/output/dashboard.png'', DashboardPng)],
      w_log =
        [(INFO, Loading ''A''), (INFO, Loading ''B''), (INFO, CombinedDataLoaded 3),
         (INFO, BuildingSummarySaved ''a/output/building_summary.csv''),
         (INFO, SummaryReportSaved ''a/output/summary.txt''),
         (INFO, CleanedDataExported ''a/output/cleaned_energy_data.csv''),
         (INFO, DashboardSaved ''a/output/dashboard.png'')],
      w_stdout =
        [[Title, Rule, TotalConsumption (I64 22), HighestConsumer (Some ''A'') (I64 15),
          PeakLoad (At 1704096000) (I64 10) ''A'']]\<rparr>)"
    by (simp add: main_def ingest_simps lab_simps file_A_def file_B_def report_simps fresh_def
        create_dashboard_def plots_fine_def)
  then have h: "fst (main lab plots_fine ''a'' [file_A, file_B] fresh) = None" by simp
  have r: "rendered (''a'' @ ''/output'') (snd (main lab plots_fine ''a'' [file_A, file_B] fresh)) =
     [Some (SummaryCsv
        [\<lparr>st_building = ''A'', st_total = I64 15, st_average = Some (F64 (15 / 2)),
          st_max = Some (I64 10)\<rparr>,
         \<lparr>st_building = ''B'', st_total = I64 7, st_average = Some (F64 7),
          st_max = Some (I64 7)\<rparr>]),
      Some (SummaryTxt [Title, Rule, TotalConsumption (I64 22), HighestConsumer (Some ''A'') (I64 15),
                        PeakLoad (At 1704096000) (I64 10) ''A'']),
      Some (CleanedCsv
        [\<lparr>c_timestamp = At 1704096000, c_kwh = IntCell 10, c_building = ''A''\<rparr>,
         \<lparr>c_timestamp = At 1704139200, c_kwh = IntCell 5, c_building = ''A''\<rparr>,
         \<lparr>c_timestamp = At 1704096000, c_kwh = IntCell 7, c_building = ''B''\<rparr>])]"
    unfolding run by (simp add: rendered_def)
  from reports_determined_by_input [OF h, of "''a''" plots_fail
      "snd (main lab plots_fine ''a'' [file_A, file_B] fresh)"] h r
  show ?thesis by simp
qed

text \<open>
  C8 as stated fails: the same two files, listed by \<^verbatim>\<open>glob\<close> in the other order, give
  another highest consumer and other orders of the rows of the statistics table and of
  the combined export.
\<close>

theorem glob_order_counterexample:
  "rendered ''a/output'' (snd (main lab plots_fine ''a'' [file_A, file_E] fresh)) =
     [Some (SummaryCsv
        [\<lparr>st_building = ''A'', st_total = I64 15, st_average = Some (F64 (15 / 2)),
          st_max = Some (I64 10)\<rparr>,
         \<lparr>st_building = ''E'', st_total = I64 15, st_average = Some (F64 15),
          st_max = Some (I64 15)\<rparr>]),
      Some (SummaryTxt [Title, Rule, TotalConsumption (I64 30), HighestConsumer (Some ''A'') (I64 15),
                        PeakLoad (At 1704096000) (I64 15) ''E'']),
      Some (CleanedCsv
        [\<lparr>c_timestamp = At 1704096000, c_kwh = IntCell 10, c_building = ''A''\<rparr>,
         \<lparr>c_timestamp = At 1704139200, c_kwh = IntCell 5, c_building = ''A''\<rparr>,
         \<lparr>c_timestamp = At 1704096000, c_kwh = IntCell 15, c_building = ''E''\<rparr>])] \<and>
   rendered ''a/output'' (snd (main lab plots_fine ''a'' [file_E, file_A] fresh)) =
     [Some (SummaryCsv
        [\<lparr>st_building = ''E'', st_total = I64 15, st_average = Some (F64 15),
          st_max = Some (I64 15)\<rparr>,
         \<lparr>st_building = ''A'', st_total = I64 15, st_average = Some (F64 (15 / 2)),
          st_max = Some (I64 10)\<rparr>]),
      Some (SummaryTxt [Title, Rule, TotalConsumption (I64 30), HighestConsumer (Some ''E'') (I64 15),
                        PeakLoad (At 1704096000) (I64 15) ''E'']),
      Some (CleanedCsv
        [\<lparr>c_timestamp = At 1704096000, c_kwh = IntCell 15, c_building = ''E''\<rparr>,
         \<lparr>c_timestamp = At 1704096000, c_kwh = IntCell 10, c_building = ''A''\<rparr>,
         \<lparr>c_timestamp = At 1704139200, c_kwh = IntCell 5, c_building = ''A''\<rparr>])]"
  by (simp add: main_def ingest_simps lab_simps file_A_def file_E_def report_simps fresh_def
      create_dashboard_def plots_fine_def rendered_def)

text \<open>
  C7. With no input file the run does not raise: the three reports are written, the
  summary states a total of 0 (and no highest consumer), no file is written at the path
  of the dashboard image, and the warnings that no CSV file was found and that there is
  no data to visualize are logged.
\<close>

theorem empty_run:
  "main p draw b [] w =
     (None,
      \<lparr>w_files =
         AList.update (b @ ''/output/cleaned_energy_data.csv'') (CleanedCsv [])
           (AList.update (b @ ''/output/summary.txt'')
              (SummaryTxt [Title, Rule, TotalConsumption Zero, HighestConsumer None Zero])
              (AList.update (b @ ''/output/building_summary.csv'') (SummaryCsv []) (w_files w))),
       w_log = w_log w @
         [(WARNING, NoCsvFilesFound (b @ ''/data'')),
          (INFO, BuildingSummarySaved (b @ ''/output/building_summary.csv'')),
          (INFO, SummaryReportSaved (b @ ''/output/summary.txt'')),
          (INFO, CleanedDataExported (b @ ''/output/cleaned_energy_data.csv'')),
          (WARNING, NoDataToVisualize)],
       w_stdout = w_stdout w @ [[Title, Rule, TotalConsumption Zero, HighestConsumer None Zero]]\<rparr>) \<and>
   map_of (w_files (snd (main p draw b [] w))) (b @ ''/output/dashboard.png'') =
     map_of (w_files w) (b @ ''/output/dashboard.png'')"
  by (simp add: main_def load_data_def new_BuildingManager_def generate_summary_report_def
      campus_total_def create_dashboard_def Let_def logging_def write_file_def emit_def
      map_of_update_other)

theorem empty_run_witness:
  "main lab plots_fail ''b'' [] fresh =
     (None,
      \<lparr>w_files =
         [(''b/output/building_summary.csv'', SummaryCsv []),
          (''b/output/summary.txt'',
           SummaryTxt [Title, Rule, TotalConsumption Zero, HighestConsumer None Zero]),
          (''b/output/cleaned_energy_data.csv'', CleanedCsv [])],
       w_log =
         [(WARNING, NoCsvFilesFound ''b/data''),
          (INFO, BuildingSummarySaved ''b/output/building_summary.csv''),
          (INFO, SummaryReportSaved ''b/output/summary.txt''),
          (INFO, CleanedDataExported ''b/output/cleaned_energy_data.csv''),
          (WARNING, NoDataToVisualize)],
       w_stdout = [[Title, Rule, TotalConsumption Zero, HighestConsumer None Zero]]\<rparr>) \<and>
   map_of (w_files (snd (main lab plots_fail ''b'' [] fresh))) ''b/output/dashboard.png'' = None"
  using empty_run [of lab plots_fail "''b''" fresh] by (simp add: fresh_def)

section \<open>Proofs: the library inventory and the weather visualizer\<close>

lemma find_isbn_Some: "find_isbn bs i = Some k \<Longrightarrow> k < length bs \<and> isbn (bs ! k) = i"
proof (induction bs arbitrary: k)
  case Nil
  then show ?case by simp
next
  case (Cons b bs)
  show ?case
  proof (cases "isbn b = i")
    case True
    with Cons.prems show ?thesis by simp
  next
    case False
    with Cons.prems obtain j where j: "find_isbn bs i = Some j" "k = Suc j" by auto
    from Cons.IH [OF j(1)] j(2) show ?thesis by simp
  qed
qed

lemma turn_issue_issued:
  assumes "search_by_isbn (inventory l) i = Some k" "status (books (inventory l) ! k) = ''issued''"
  shows "turn l (IssueBook i) = l\<lparr>prints := prints l @ [NotFoundOrIssued]\<rparr>"
  using assms by (simp add: turn_def issue_def)

lemma turn_issue_available:
  assumes "search_by_isbn (inventory l) i = Some k" "status (books (inventory l) ! k) = ''available''"
  shows "turn l (IssueBook i) =
    l\<lparr>inventory := (inventory l)\<lparr>books := (books (inventory l))[k := (books (inventory l) ! k)\<lparr>status := ''issued''\<rparr>]\<rparr>,
      the_disk := fst (save_books ((inventory l)\<lparr>books := (books (inventory l))[k := (books (inventory l) ! k)\<lparr>status := ''issued''\<rparr>]\<rparr>) (the_disk l, the_log l)),
      the_log := snd (save_books ((inventory l)\<lparr>books := (books (inventory l))[k := (books (inventory l) ! k)\<lparr>status := ''issued''\<rparr>]\<rparr>) (the_disk l, the_log l)),
      prints := prints l @ [Issued (title (books (inventory l) ! k))]\<rparr>"
  using assms by (simp add: turn_def issue_def Let_def split: prod.split)

text \<open>
  C6. Issuing a book whose status is "issued" returns False and changes nothing; in the
  menu, neither the inventory nor the catalog file changes. Issuing a book whose status
  is "available" returns True and sets the status to "issued"; in the menu the book found
  by its ISBN is replaced by the issued one and \<^verbatim>\<open>save_books\<close> runs at once on the new
  inventory, which, the file being writable, replaces the content of the catalog file by
  the entries of all the books.
\<close>

theorem issue_book:
  "(status b = ''issued'' \<longrightarrow> issue b = (False, b)) \<and>
   (status b = ''available'' \<longrightarrow> issue b = (True, b\<lparr>status := ''issued''\<rparr>)) \<and>
   (search_by_isbn (inventory l) i = Some k \<and> status (books (inventory l) ! k) = ''issued'' \<longrightarrow>
      inventory (turn l (IssueBook i)) = inventory l \<and>
      the_disk (turn l (IssueBook i)) = the_disk l) \<and>
   (search_by_isbn (inventory l) i = Some k \<and> status (books (inventory l) ! k) = ''available'' \<longrightarrow>
      k < length (books (inventory l)) \<and>
      books (inventory (turn l (IssueBook i))) =
        (books (inventory l))[k := (books (inventory l) ! k)\<lparr>status := ''issued''\<rparr>] \<and>
      (the_disk (turn l (IssueBook i)), the_log (turn l (IssueBook i))) =
        save_books (inventory (turn l (IssueBook i))) (the_disk l, the_log l) \<and>
      (writable (the_disk l) \<longrightarrow>
         catalog (the_disk (turn l (IssueBook i))) =
           Catalog (map to_dict (books (inventory (turn l (IssueBook i)))))))"
proof -
  have 1: "status b = ''issued'' \<longrightarrow> issue b = (False, b)" by (simp add: issue_def)
  have 2: "status b = ''available'' \<longrightarrow> issue b = (True, b\<lparr>status := ''issued''\<rparr>)"
    by (simp add: issue_def)
  have 3: "search_by_isbn (inventory l) i = Some k \<and> status (books (inventory l) ! k) = ''issued'' \<longrightarrow>
      inventory (turn l (IssueBook i)) = inventory l \<and>
      the_disk (turn l (IssueBook i)) = the_disk l"
    by (auto simp: turn_issue_issued)
  have 4: "search_by_isbn (inventory l) i = Some k \<and> status (books (inventory l) ! k) = ''available'' \<longrightarrow>
      k < length (books (inventory l)) \<and>
      books (inventory (turn l (IssueBook i))) =
        (books (inventory l))[k := (books (inventory l) ! k)\<lparr>status := ''issued''\<rparr>] \<and>
      (the_disk (turn l (IssueBook i)), the_log (turn l (IssueBook i))) =
        save_books (inventory (turn l (IssueBook i))) (the_disk l, the_log l) \<and>
      (writable (the_disk l) \<longrightarrow>
         catalog (the_disk (turn l (IssueBook i))) =
           Catalog (map to_dict (books (inventory (turn l (IssueBook i))))))"
  proof (intro impI, elim conjE)
    assume s: "search_by_isbn (inventory l) i = Some k"
      and a: "status (books (inventory l) ! k) = ''available''"
    from s have k: "k < length (books (inventory l))"
      using find_isbn_Some by (auto simp: search_by_isbn_def)
    note t = turn_issue_available [OF s a]
    show "k < length (books (inventory l)) \<and>
      books (inventory (turn l (IssueBook i))) =
        (books (inventory l))[k := (books (inventory l) ! k)\<lparr>status := ''issued''\<rparr>] \<and>
      (the_disk (turn l (IssueBook i)), the_log (turn l (IssueBook i))) =
        save_books (inventory (turn l (IssueBook i))) (the_disk l, the_log l) \<and>
      (writable (the_disk l) \<longrightarrow>
         catalog (the_disk (turn l (IssueBook i))) =
           Catalog (map to_dict (books (inventory (turn l (IssueBook i))))))"
      using k by (simp add: t) (simp add: save_books_def)
  qed
  from 1 2 3 4 show ?thesis by blast
qed

theorem issue_book_witness:
  "status (books (inventory shelf_library) ! 0) = ''issued'' \<and>
   issue (books (inventory shelf_library) ! 0) = (False, books (inventory shelf_library) ! 0) \<and>
   status (books (inventory shelf_library) ! 1) = ''available'' \<and>
   issue (books (inventory shelf_library) ! 1) =
     (True, \<lparr>title = ''Ulysses'', author = ''Joyce'', isbn = ''22'', status = ''issued''\<rparr>) \<and>
   search_by_isbn (inventory shelf_library) ''11'' = Some 0 \<and>
   inventory (turn shelf_library (IssueBook ''11'')) = inventory shelf_library \<and>
   the_disk (turn shelf_library (IssueBook ''11'')) = the_disk shelf_library \<and>
   search_by_isbn (inventory shelf_library) '' 22 '' = Some 1 \<and>
   writable (the_disk shelf_library) \<and>
   books (inventory (turn shelf_library (IssueBook '' 22 ''))) =
     [\<lparr>title = ''Emma'', author = ''Austen'', isbn = ''11'', status = ''issued''\<rparr>,
      \<lparr>title = ''Ulysses'', author = ''Joyce'', isbn = ''22'', status = ''issued''\<rparr>] \<and>
   catalog (the_disk (turn shelf_library (IssueBook '' 22 ''))) =
     Catalog [Entry ''Emma'' ''Austen'' ''11'' (Some ''issued''),
              Entry ''Ulysses'' ''Joyce'' ''22'' (Some ''issued'')]"
proof -
  have s0: "search_by_isbn (inventory shelf_library) ''11'' = Some 0"
    by (simp add: shelf_library_def search_by_isbn_def strip_def is_space_def)
  have s1: "search_by_isbn (inventory shelf_library) '' 22 '' = Some 1"
    by (simp add: shelf_library_def search_by_isbn_def strip_def is_space_def)
  have b0: "status (books (inventory shelf_library) ! 0) = ''issued''"
    by (simp add: shelf_library_def)
  have b1: "status (books (inventory shelf_library) ! 1) = ''available''"
    by (simp add: shelf_library_def)
  have w: "writable (the_disk shelf_library)" by (simp add: shelf_library_def shelf_disk_def)
  from issue_book [of "books (inventory shelf_library) ! 0" shelf_library "''11''" 0]
    issue_book [of "books (inventory shelf_library) ! 1" shelf_library "'' 22 ''" 1]
    s0 s1 b0 b1 w
  show ?thesis by (simp add: shelf_library_def to_dict_def)
qed

lemma Book_init_status:
  "status (Book_init t a i st) =
     (if \<exists>x. st = Some x \<and> lower (strip x) = ''issued'' then ''issued'' else ''available'')"
  by (cases st) (auto simp: Book_init_def Let_def lower_def strip_def)

lemma Book_init_valid: "valid_status (Book_init t a i st)"
  by (simp add: valid_status_def Book_init_status)

lemma from_items_valid: "from_items items = Some bs \<Longrightarrow> list_all valid_status bs"
proof (induction items arbitrary: bs rule: from_items.induct)
  case 1
  then show ?case by simp
next
  case (2 t a i st items)
  then show ?case by (auto simp: Book_init_valid)
next
  case (3 items)
  then show ?case by simp
qed

lemma list_all_list_update:
  "list_all P xs \<Longrightarrow> P x \<Longrightarrow> list_all P (xs[k := x])"
  by (auto simp: list_all_iff dest: set_update_subset_insert [THEN subsetD])

lemma return_valid: "valid_status b \<Longrightarrow> valid_status (snd (return_book b))"
  by (auto simp: return_book_def valid_status_def)

lemma issue_valid: "valid_status b \<Longrightarrow> valid_status (snd (issue b))"
  by (auto simp: issue_def valid_status_def)

lemma turn_valid:
  assumes "list_all valid_status (books (inventory l))"
  shows "list_all valid_status (books (inventory (turn l c)))"
proof (cases c)
  case (AddBook t a i)
  with assms show ?thesis
    by (auto simp: turn_def add_book_def Let_def Book_init_valid split: prod.splits)
next
  case (IssueBook i)
  show ?thesis
  proof (cases "search_by_isbn (inventory l) i")
    case None
    with IssueBook assms show ?thesis by (simp add: turn_def)
  next
    case (Some k)
    from find_isbn_Some [of "books (inventory l)" "strip i" k] Some
    have k: "k < length (books (inventory l))" by (simp add: search_by_isbn_def)
    with assms have v: "valid_status (books (inventory l) ! k)" by (simp add: list_all_length)
    show ?thesis
    proof (cases "fst (issue (books (inventory l) ! k))")
      case True
      then obtain book where i: "issue (books (inventory l) ! k) = (True, book)"
        by (cases "issue (books (inventory l) ! k)") auto
      with issue_valid [OF v] have "valid_status book" by simp
      with assms have "list_all valid_status ((books (inventory l))[k := book])"
        by (simp add: list_all_list_update)
      with IssueBook Some i show ?thesis by (simp add: turn_def Let_def split: prod.split)
    next
      case False
      then obtain book where i: "issue (books (inventory l) ! k) = (False, book)"
        by (cases "issue (books (inventory l) ! k)") auto
      with IssueBook Some assms show ?thesis by (simp add: turn_def)
    qed
  qed
next
  case (ReturnBook i)
  show ?thesis
  proof (cases "search_by_isbn (inventory l) i")
    case None
    with ReturnBook assms show ?thesis by (simp add: turn_def)
  next
    case (Some k)
    from find_isbn_Some [of "books (inventory l)" "strip i" k] Some
    have k: "k < length (books (inventory l))" by (simp add: search_by_isbn_def)
    with assms have v: "valid_status (books (inventory l) ! k)" by (simp add: list_all_length)
    show ?thesis
    proof (cases "fst (return_book (books (inventory l) ! k))")
      case True
      then obtain book where i: "return_book (books (inventory l) ! k) = (True, book)"
        by (cases "return_book (books (inventory l) ! k)") auto
      with return_valid [OF v] have "valid_status book" by simp
      with assms have "list_all valid_status ((books (inventory l))[k := book])"
        by (simp add: list_all_list_update)
      with ReturnBook Some i show ?thesis by (simp add: turn_def Let_def split: prod.split)
    next
      case False
      then obtain book where i: "return_book (books (inventory l) ! k) = (False, book)"
        by (cases "return_book (books (inventory l) ! k)") auto
      with ReturnBook Some assms show ?thesis by (simp add: turn_def)
    qed
  qed
next
  case Other
  with assms show ?thesis by (simp add: turn_def)
qed

lemma foldl_turn_valid:
  "list_all valid_status (books (inventory l)) \<Longrightarrow>
   list_all valid_status (books (inventory (foldl turn l cs)))"
  by (induction cs arbitrary: l) (auto simp: turn_valid)

text \<open>
  C10. The constructor gives the status "issued" exactly when the argument, stripped and
  lowercased, is "issued", and "available" otherwise; issuing and returning a book with
  one of the two statuses give one of the two; and after loading the catalog file and any
  sequence of choices of the menu every book of the inventory has one of the two.
\<close>

theorem status_invariant:
  "status (Book_init t a i st) =
     (if \<exists>x. st = Some x \<and> lower (strip x) = ''issued'' then ''issued'' else ''available'') \<and>
   (valid_status b \<longrightarrow> valid_status (snd (issue b)) \<and> valid_status (snd (return_book b))) \<and>
   (session d cs = Inr l \<longrightarrow> list_all valid_status (books (inventory l)))"
proof -
  have "session d cs = Inr l \<longrightarrow> list_all valid_status (books (inventory l))"
  proof
    assume s: "session d cs = Inr l"
    then obtain lib lg where ld: "load_books d [] = Inr (lib, lg)"
      and l: "l = foldl turn \<lparr>inventory = lib, the_disk = d, the_log = lg, prints = []\<rparr> cs"
      by (auto simp: session_def split: sum.splits)
    from ld have "list_all valid_status (books lib)"
      by (auto simp: load_books_def from_items_valid split: catalog_file.splits option.splits)
    then show "list_all valid_status (books (inventory l))"
      unfolding l by (intro foldl_turn_valid) simp
  qed
  then show ?thesis
    by (simp add: Book_init_status issue_valid return_valid)
qed

theorem status_invariant_witness:
  "status (Book_init ''Emma'' ''Austen'' ''11'' (Some '' Issued '')) = ''issued'' \<and>
   status (Book_init ''Ulysses'' ''Joyce'' ''22'' (Some ''lost'')) = ''available'' \<and>
   valid_status (books (inventory shelf_library) ! 0) \<and>
   valid_status (snd (issue (books (inventory shelf_library) ! 0))) \<and>
   valid_status (snd (return_book (books (inventory shelf_library) ! 0))) \<and>
   session shelf_disk [IssueBook ''22'', ReturnBook ''11'', AddBook ''Dune'' ''Herbert'' ''33''] =
     Inr (foldl turn (shelf_library\<lparr>the_log := [(INFO, CatalogLoaded 2)]\<rparr>)
            [IssueBook ''22'', ReturnBook ''11'', AddBook ''Dune'' ''Herbert'' ''33'']) \<and>
   list_all valid_status (books (inventory (foldl turn (shelf_library\<lparr>the_log := [(INFO, CatalogLoaded 2)]\<rparr>)
     [IssueBook ''22'', ReturnBook ''11'', AddBook ''Dune'' ''Herbert'' ''33''])))"
proof -
  have e: "lower (strip '' Issued '') = ''issued''" "lower (strip ''lost'') \<noteq> ''issued''"
    by code_simp+
  have v: "valid_status (books (inventory shelf_library) ! 0)"
    by (simp add: shelf_library_def valid_status_def)
  have s: "session shelf_disk [IssueBook ''22'', ReturnBook ''11'', AddBook ''Dune'' ''Herbert'' ''33''] =
     Inr (foldl turn (shelf_library\<lparr>the_log := [(INFO, CatalogLoaded 2)]\<rparr>)
            [IssueBook ''22'', ReturnBook ''11'', AddBook ''Dune'' ''Herbert'' ''33''])"
    by code_simp
  from status_invariant [of "''Emma''" "''Austen''" "''11''" "Some '' Issued ''"
      "books (inventory shelf_library) ! 0" shelf_disk
      "[IssueBook ''22'', ReturnBook ''11'', AddBook ''Dune'' ''Herbert'' ''33'']"
      "foldl turn (shelf_library\<lparr>the_log := [(INFO, CatalogLoaded 2)]\<rparr>)
            [IssueBook ''22'', ReturnBook ''11'', AddBook ''Dune'' ''Herbert'' ''33'']"]
    status_invariant [of "''Ulysses''" "''Joyce''" "''22''" "Some ''lost''"
      "books (inventory shelf_library) ! 0" shelf_disk "[]" shelf_library]
    e v s
  show ?thesis by simp
qed

lemma weather_main_result:
  "weather_main ex lc rest csv stdin =
     \<lparr>result = (case path_used csv stdin of
                  None \<Rightarrow> Exception
                | Some p \<Rightarrow>
                    if \<not> ex p then Exit 2
                    else (case lc p of
                            None \<Rightarrow> Exit 3
                          | Some frame \<Rightarrow> if rest frame then Exit 0 else Exception)),
      prompted = (csv = None \<or> csv = Some [])\<rparr>"
  by (cases csv) (auto simp: weather_main_def path_used_def Let_def split: option.splits)

text \<open>
  C9 (as amended). The entry point returns 2 exactly when the input file is missing and
  3 exactly when the file exists and loading and cleaning it fails, two different codes;
  and it prompts for the path exactly when the path argument is omitted or empty.
\<close>

theorem weather_exit_codes:
  "(result (weather_main ex lc rest csv stdin) = Exit 2 \<longleftrightarrow>
      (\<exists>p. path_used csv stdin = Some p \<and> \<not> ex p)) \<and>
   (result (weather_main ex lc rest csv stdin) = Exit 3 \<longleftrightarrow>
      (\<exists>p. path_used csv stdin = Some p \<and> ex p \<and> lc p = None)) \<and>
   Exit 2 \<noteq> Exit 3 \<and>
   (prompted (weather_main ex lc rest csv stdin) \<longleftrightarrow> csv = None \<or> csv = Some [])"
  unfolding weather_main_result
  by (auto split: option.splits)

theorem weather_exit_codes_witness:
  "path_used (Some ''w.csv'') None = Some ''w.csv'' \<and>
   result (weather_main no_file loads completes (Some ''w.csv'') None) = Exit 2 \<and>
   result (weather_main any_file load_fails completes (Some ''w.csv'') None) = Exit 3 \<and>
   \<not> prompted (weather_main any_file load_fails completes (Some ''w.csv'') None) \<and>
   prompted (weather_main any_file loads completes None (Some ''w.csv''))"
proof -
  have p: "path_used (Some ''w.csv'') None = Some ''w.csv''" by (simp add: path_used_def)
  have 1: "\<exists>p. path_used (Some ''w.csv'') None = Some p \<and> \<not> no_file p"
    by (simp add: p no_file_def)
  have 2: "\<exists>p. path_used (Some ''w.csv'') None = Some p \<and> any_file p \<and> load_fails p = None"
    by (simp add: p any_file_def load_fails_def)
  from weather_exit_codes [of no_file loads completes "Some ''w.csv''" None]
    weather_exit_codes [of any_file load_fails completes "Some ''w.csv''" None]
    weather_exit_codes [of any_file loads completes None "Some ''w.csv''"]
    p 1 2
  show ?thesis by simp
qed

text \<open>
  C9 as stated fails: with \<^verbatim>\<open>--csv ""\<close> the path argument is given, not omitted, and the
  program prompts all the same.
\<close>

theorem prompt_counterexample:
  "prompted (weather_main any_file loads completes (Some []) (Some ''w.csv'')) \<and>
   Some [] \<noteq> (None :: string option)"
  by (simp add: weather_main_result)


end
